theory Spec2Isabelle
  imports Main
begin

section \<open>The sync cleanup engine (cmd/regsync/cleanup.go)\<close>

subsection \<open>Errors\<close>

text \<open>
  Go's \<^verbatim>\<open>error\<close> values that \<^verbatim>\<open>cleanupTags\<close> can return. \<open>ErrCanceled\<close> is regsync's
  cancellation marker. \<open>ExtErr\<close> is an opaque error of a collaborator (\<^verbatim>\<open>ref.New\<close>,
  \<^verbatim>\<open>TagList\<close>, \<^verbatim>\<open>GetTags\<close>, \<^verbatim>\<open>filterTagList\<close>, \<^verbatim>\<open>TagDelete\<close>, \<^verbatim>\<open>regexp.Compile\<close>).
  \<open>InvalidExclusionPattern pattern err\<close> is
  \<^verbatim>\<open>fmt.Errorf("invalid exclusion pattern %q: %w", pattern, err)\<close>,
  \<open>FailedDeleteTag name tag err\<close> is
  \<^verbatim>\<open>fmt.Errorf("failed to delete tag %s:%s: %w", tgtRef.CommonName(), tag, err)\<close>, and
  \<open>Joined errs\<close> is what \<^verbatim>\<open>errors.Join\<close> builds from a non-empty list.
\<close>

datatype error =
    ErrCanceled
  | ExtErr string
  | InvalidExclusionPattern string error
  | FailedDeleteTag string string error
  | Joined "error list"

text \<open>\<^verbatim>\<open>errors.Join(errs...)\<close>: nil when there is no error to join. The loop never appends nil.\<close>

definition errors_Join :: "error list \<Rightarrow> error option" where
  "errors_Join errs = (if errs = [] then None else Some (Joined errs))"

subsection \<open>Configuration\<close>

text \<open>
  Modelled from the spec: the struct of a tag filter set is declared outside cleanup.go.
  Section 3: \<^verbatim>\<open>{allow: [patterns], deny: [patterns], semverRange: string}\<close>; the fields carry
  the names \<^verbatim>\<open>cleanupTags\<close> reads them by. \<^verbatim>\<open>len(x) > 0\<close> on a slice or string is
  \<open>x \<noteq> []\<close>.
\<close>

record TagAllowDeny =
  Allow :: "string list"
  Deny :: "string list"
  SemverRange :: string

text \<open>
  Modelled from the spec: \<^verbatim>\<open>ConfigSync\<close> is declared outside cleanup.go. Section 3: a sync
  rule has a target, tag filter sets and cleanup exclusion patterns; these are the fields
  \<^verbatim>\<open>cleanupTags\<close> and \<^verbatim>\<open>findSyncEntriesForTarget\<close> read.
\<close>

record ConfigSync =
  Target :: string
  Tags :: TagAllowDeny
  TagSets :: "TagAllowDeny list"
  CleanupTagsExclude :: "string list"

subsection \<open>Collaborators\<close>

text \<open>
  Everything \<^verbatim>\<open>cleanupTags\<close> calls that lives outside cleanup.go is a field of this record:
  the configured sync list \<^verbatim>\<open>opts.conf.Sync\<close>, the reference parser \<^verbatim>\<open>ref.New\<close> with
  \<^verbatim>\<open>CommonName\<close> and \<^verbatim>\<open>SetTag\<close>, the registry client \<^verbatim>\<open>opts.rc\<close>, \<^verbatim>\<open>filterTagList\<close>
  and \<^verbatim>\<open>regexp.Compile\<close> (a compiled expression is its \<^verbatim>\<open>MatchString\<close>).
  \<open>'reg\<close> is the state of the registry: \<open>rc_TagList\<close> reads it (the outer sum is the
  result of \<^verbatim>\<open>TagList\<close>, the inner one of \<^verbatim>\<open>GetTags\<close>), \<open>rc_TagDelete\<close> returns the
  error (\<open>None\<close> is nil) and the registry after the call.
\<close>

record ('ref, 'reg) rootOpts =
  conf_Sync :: "ConfigSync list"
  ref_New :: "string \<Rightarrow> error + 'ref"
  CommonName :: "'ref \<Rightarrow> string"
  SetTag :: "'ref \<Rightarrow> string \<Rightarrow> 'ref"
  rc_TagList :: "'reg \<Rightarrow> 'ref \<Rightarrow> error + (error + string list)"
  rc_TagDelete :: "'reg \<Rightarrow> 'ref \<Rightarrow> error option \<times> 'reg"
  filterTagList :: "TagAllowDeny \<Rightarrow> string list \<Rightarrow> error + string list"
  regexp_Compile :: "string \<Rightarrow> error + (string \<Rightarrow> bool)"

text \<open>
  What a call leaves behind: the returned error, the registry, and the tags
  \<^verbatim>\<open>TagDelete\<close> was called on, in call order.
\<close>

record 'reg outcome =
  returned :: "error option"
  registry :: 'reg
  deleted :: "string list"

subsection \<open>matchesExclusionPattern and findSyncEntriesForTarget\<close>

text \<open>
  cleanup.go, lines 24 to 41. The patterns are compiled one by one while the tag is tested:
  the first pattern that does not compile returns the error, the first that matches returns
  \<open>(True, pattern)\<close> without compiling the rest. The empty list is the early
  \<^verbatim>\<open>len(patterns) == 0\<close> return as well as the end of the loop.
\<close>

fun matchesExclusionPattern ::
  "(string \<Rightarrow> error + (string \<Rightarrow> bool)) \<Rightarrow> string \<Rightarrow> string list \<Rightarrow> error + (bool \<times> string)" where
  "matchesExclusionPattern compile tag [] = Inr (False, [])"
| "matchesExclusionPattern compile tag (pattern # patterns) =
     (case compile pattern of
        Inl err \<Rightarrow> Inl (InvalidExclusionPattern pattern err)
      | Inr exp \<Rightarrow>
          if exp tag then Inr (True, pattern)
          else matchesExclusionPattern compile tag patterns)"

text \<open>cleanup.go, lines 44 to 52: the sync entries whose target is \<open>tgt\<close>, in configuration order.\<close>

definition findSyncEntriesForTarget :: "('ref, 'reg) rootOpts \<Rightarrow> string \<Rightarrow> ConfigSync list" where
  "findSyncEntriesForTarget opts tgt = filter (\<lambda>sync. Target sync = tgt) (conf_Sync opts)"

subsection \<open>cleanupTags\<close>

text \<open>
  cleanup.go, lines 57 to 200. Each loop of the function is a recursive function over the
  list it ranges over, with the variables it updates as arguments.
\<close>

text \<open>
  Lines 96 to 99. The filter sets of one sync entry: \<^verbatim>\<open>TagSets\<close>, with \<^verbatim>\<open>Tags\<close> appended
  when its allow list, deny list or semver range is not empty.
\<close>

definition entrySets :: "ConfigSync \<Rightarrow> TagAllowDeny list" where
  "entrySets syncEntry =
     (if Allow (Tags syncEntry) \<noteq> [] \<or> Deny (Tags syncEntry) \<noteq> [] \<or> SemverRange (Tags syncEntry) \<noteq> []
      then TagSets syncEntry @ [Tags syncEntry]
      else TagSets syncEntry)"

text \<open>
  Lines 115 to 119, the innermost loop: append every tag of \<open>filteredCur\<close> that \<open>wantedTags\<close>
  lacks.
\<close>

fun addWanted :: "string list \<Rightarrow> string list \<Rightarrow> string list" where
  "addWanted wantedTags [] = wantedTags"
| "addWanted wantedTags (tag # filteredCur) =
     addWanted (if tag \<in> set wantedTags then wantedTags else wantedTags @ [tag]) filteredCur"

text \<open>
  Lines 103 to 120, the loop over the sets of one entry; a filter error returns from
  \<^verbatim>\<open>cleanupTags\<close>.
\<close>

fun wantedOfSets ::
  "(TagAllowDeny \<Rightarrow> string list \<Rightarrow> error + string list) \<Rightarrow> string list \<Rightarrow>
   TagAllowDeny list \<Rightarrow> string list \<Rightarrow> error + string list" where
  "wantedOfSets ftl tTagsList [] wantedTags = Inr wantedTags"
| "wantedOfSets ftl tTagsList (tset # sets) wantedTags =
     (case ftl tset tTagsList of
        Inl err \<Rightarrow> Inl err
      | Inr filteredCur \<Rightarrow> wantedOfSets ftl tTagsList sets (addWanted wantedTags filteredCur))"

text \<open>
  Lines 95 to 122, the loop over the sync entries, carrying \<open>wantedTags\<close> and
  \<open>allSetsEmpty\<close>.
\<close>

fun wantedOfEntries ::
  "(TagAllowDeny \<Rightarrow> string list \<Rightarrow> error + string list) \<Rightarrow> string list \<Rightarrow>
   ConfigSync list \<Rightarrow> string list \<Rightarrow> bool \<Rightarrow> error + (string list \<times> bool)" where
  "wantedOfEntries ftl tTagsList [] wantedTags allSetsEmpty = Inr (wantedTags, allSetsEmpty)"
| "wantedOfEntries ftl tTagsList (syncEntry # syncEntries) wantedTags allSetsEmpty =
     (if entrySets syncEntry \<noteq> [] then
        (case wantedOfSets ftl tTagsList (entrySets syncEntry) wantedTags of
           Inl err \<Rightarrow> Inl err
         | Inr wantedTags' \<Rightarrow> wantedOfEntries ftl tTagsList syncEntries wantedTags' False)
      else wantedOfEntries ftl tTagsList syncEntries wantedTags allSetsEmpty)"

text \<open>Lines 136 to 162, the loop that identifies the tags to delete.\<close>

fun identifyTags ::
  "(string \<Rightarrow> error + (string \<Rightarrow> bool)) \<Rightarrow> string list \<Rightarrow> string list \<Rightarrow>
   string list \<Rightarrow> string list \<Rightarrow> error + string list" where
  "identifyTags compile wantedTags patterns [] tagsToDelete = Inr tagsToDelete"
| "identifyTags compile wantedTags patterns (tag # tTagsList) tagsToDelete =
     (if tag \<in> set wantedTags then identifyTags compile wantedTags patterns tTagsList tagsToDelete
      else
        (case matchesExclusionPattern compile tag patterns of
           Inl err \<Rightarrow> Inl err
         | Inr (excluded, pattern) \<Rightarrow>
             if excluded then identifyTags compile wantedTags patterns tTagsList tagsToDelete
             else identifyTags compile wantedTags patterns tTagsList (tagsToDelete @ [tag])))"

text \<open>
  Lines 164 to 192, the deletion loop. \<open>ctx k\<close> says whether \<^verbatim>\<open>ctx.Done()\<close> is ready at
  the \<^verbatim>\<open>select\<close> that precedes deletion number \<open>k\<close> (counted from 0). \<open>errs\<close> is the
  slice of the source; \<open>issued\<close> records the tags \<^verbatim>\<open>TagDelete\<close> has been called on.
\<close>

fun deleteTags ::
  "('ref, 'reg) rootOpts \<Rightarrow> (nat \<Rightarrow> bool) \<Rightarrow> 'ref \<Rightarrow> string list \<Rightarrow> nat \<Rightarrow> 'reg \<Rightarrow>
   error list \<Rightarrow> string list \<Rightarrow> 'reg outcome" where
  "deleteTags opts ctx tgtRef [] k reg errs issued =
     \<lparr>returned = errors_Join errs, registry = reg, deleted = issued\<rparr>"
| "deleteTags opts ctx tgtRef (tag # tagsToDelete) k reg errs issued =
     (if ctx k then
        \<lparr>returned = errors_Join (errs @ [ErrCanceled]), registry = reg, deleted = issued\<rparr>
      else
        (case rc_TagDelete opts reg (SetTag opts tgtRef tag) of
           (Some err, reg') \<Rightarrow>
             deleteTags opts ctx tgtRef tagsToDelete (Suc k) reg'
               (errs @ [FailedDeleteTag (CommonName opts tgtRef) tag err]) (issued @ [tag])
         | (None, reg') \<Rightarrow>
             deleteTags opts ctx tgtRef tagsToDelete (Suc k) reg' errs (issued @ [tag])))"

text \<open>
  Lines 92 to 127: \<open>wantedTags\<close> as the loop over the entries of the target leaves it, with the
  \<^verbatim>\<open>if allSetsEmpty { wantedTags = tTagsList }\<close> that follows the loop.
\<close>

definition wantedTags ::
  "('ref, 'reg) rootOpts \<Rightarrow> string list \<Rightarrow> string \<Rightarrow> error + string list" where
  "wantedTags opts tTagsList tgt =
     (case wantedOfEntries (filterTagList opts) tTagsList (findSyncEntriesForTarget opts tgt) [] True of
        Inl err \<Rightarrow> Inl err
      | Inr (wanted, allSetsEmpty) \<Rightarrow> Inr (if allSetsEmpty then tTagsList else wanted))"

text \<open>
  Lines 130 to 133, \<open>allExclusionPatterns\<close>: the patterns of every entry of the target, in
  entry order.
\<close>

definition allExclusionPatterns :: "('ref, 'reg) rootOpts \<Rightarrow> string \<Rightarrow> string list" where
  "allExclusionPatterns opts tgt = concat (map CleanupTagsExclude (findSyncEntriesForTarget opts tgt))"

text \<open>
  Everything \<^verbatim>\<open>cleanupTags\<close> does before its deletion loop: parse the target, list its
  tags, build \<open>wantedTags\<close>, pool the exclusion patterns, identify the tags to delete. Each
  early \<^verbatim>\<open>return err\<close> is an \<open>Inl\<close>.
\<close>

definition tagsToDelete ::
  "('ref, 'reg) rootOpts \<Rightarrow> 'reg \<Rightarrow> string \<Rightarrow> error + ('ref \<times> string list)" where
  "tagsToDelete opts reg tgt =
     (case ref_New opts tgt of
        Inl err \<Rightarrow> Inl err
      | Inr tgtRef \<Rightarrow>
     (case rc_TagList opts reg tgtRef of
        Inl err \<Rightarrow> Inl err
      | Inr tTags \<Rightarrow>
     (case tTags of
        Inl err \<Rightarrow> Inl err
      | Inr tTagsList \<Rightarrow>
     (case wantedTags opts tTagsList tgt of
        Inl err \<Rightarrow> Inl err
      | Inr wanted \<Rightarrow>
     (case identifyTags (regexp_Compile opts) wanted (allExclusionPatterns opts tgt) tTagsList [] of
        Inl err \<Rightarrow> Inl err
      | Inr ds \<Rightarrow> Inr (tgtRef, ds))))))"

text \<open>
  \<^verbatim>\<open>func (opts *rootOpts) cleanupTags(ctx, s, tgt) error\<close>, started on registry \<open>reg\<close>.
  The body never reads \<open>s\<close>. The calls of \<^verbatim>\<open>opts.log\<close> are left out: they change neither
  what is returned nor what is deleted.
\<close>

definition cleanupTags ::
  "('ref, 'reg) rootOpts \<Rightarrow> (nat \<Rightarrow> bool) \<Rightarrow> 'reg \<Rightarrow> ConfigSync \<Rightarrow> string \<Rightarrow> 'reg outcome" where
  "cleanupTags opts ctx reg s tgt =
     (case tagsToDelete opts reg tgt of
        Inl err \<Rightarrow> \<lparr>returned = Some err, registry = reg, deleted = []\<rparr>
      | Inr (tgtRef, ds) \<Rightarrow> deleteTags opts ctx tgtRef ds 0 reg [] [])"

subsection \<open>Notions the statements about cleanupTags use\<close>

text \<open>
  What calling \<^verbatim>\<open>TagDelete\<close> on the given tags, one after the other, returns when nothing
  interrupts: each tag with the result of its call.
\<close>

fun attempts ::
  "('ref, 'reg) rootOpts \<Rightarrow> 'ref \<Rightarrow> 'reg \<Rightarrow> string list \<Rightarrow> (string \<times> error option) list" where
  "attempts opts tgtRef reg [] = []"
| "attempts opts tgtRef reg (tag # tags) =
     (tag, fst (rc_TagDelete opts reg (SetTag opts tgtRef tag)))
       # attempts opts tgtRef (snd (rc_TagDelete opts reg (SetTag opts tgtRef tag))) tags"

text \<open>The registry after those calls.\<close>

fun registryAfter :: "('ref, 'reg) rootOpts \<Rightarrow> 'ref \<Rightarrow> 'reg \<Rightarrow> string list \<Rightarrow> 'reg" where
  "registryAfter opts tgtRef reg [] = reg"
| "registryAfter opts tgtRef reg (tag # tags) =
     registryAfter opts tgtRef (snd (rc_TagDelete opts reg (SetTag opts tgtRef tag))) tags"

text \<open>
  The errors the deletion loop collects for the calls that failed, in call order: the error of
  each failed call, wrapped with the name of the target and the tag.
\<close>

fun failures :: "string \<Rightarrow> (string \<times> error option) list \<Rightarrow> error list" where
  "failures name [] = []"
| "failures name ((tag, None) # rs) = failures name rs"
| "failures name ((tag, Some err) # rs) = FailedDeleteTag name tag err # failures name rs"

text \<open>A tag matches some pattern of the list (a pattern that does not compile matches nothing).\<close>

definition matchesAny :: "(string \<Rightarrow> error + (string \<Rightarrow> bool)) \<Rightarrow> string list \<Rightarrow> string \<Rightarrow> bool" where
  "matchesAny compile patterns tag =
     (\<exists>pattern \<in> set patterns. case compile pattern of Inl err \<Rightarrow> False | Inr exp \<Rightarrow> exp tag)"

text \<open>
  The union of what \<open>ftl\<close> keeps of \<open>tTagsList\<close>, over every filter set of every entry.
\<close>

definition wantedUnion ::
  "(TagAllowDeny \<Rightarrow> string list \<Rightarrow> error + string list) \<Rightarrow> string list \<Rightarrow> ConfigSync list \<Rightarrow> string set" where
  "wantedUnion ftl tTagsList syncEntries =
     (\<Union>syncEntry \<in> set syncEntries. \<Union>tset \<in> set (entrySets syncEntry).
        case ftl tset tTagsList of Inl err \<Rightarrow> {} | Inr filteredCur \<Rightarrow> set filteredCur)"

subsection \<open>Stand-ins for the collaborators, for evaluating examples\<close>

text \<open>
  Modelled from the spec: \<^verbatim>\<open>filterTagList\<close> is declared outside cleanup.go. Section 4.4:
  a pattern that does not compile aborts the whole call with an error that names the pattern.
  \<open>compileAll\<close> compiles the patterns of an allow or deny list.
\<close>

fun compileAll ::
  "(string \<Rightarrow> error + (string \<Rightarrow> bool)) \<Rightarrow> string list \<Rightarrow> error + (string \<Rightarrow> bool) list" where
  "compileAll compile [] = Inr []"
| "compileAll compile (pattern # patterns) =
     (case compile pattern of
        Inl err \<Rightarrow> Inl (ExtErr pattern)
      | Inr exp \<Rightarrow>
          (case compileAll compile patterns of
             Inl err \<Rightarrow> Inl err
           | Inr exps \<Rightarrow> Inr (exp # exps)))"

text \<open>
  Modelled from the spec: \<^verbatim>\<open>filterTagList\<close> is called by \<^verbatim>\<open>cleanupTags\<close> and declared
  outside cleanup.go. Section 4.4: a tag is retained only if it matches at least one allow
  pattern (every tag passes when allow is empty), is dropped if it matches any deny pattern,
  and, when semverRange is set, must fall inside the range (\<open>inRange\<close>, a parameter); the
  order of the input is kept. The theorems take \<open>filterTagList\<close> as a field of \<open>rootOpts\<close>;
  this definition only instantiates it in the examples.
\<close>

definition spec_filterTagList ::
  "(string \<Rightarrow> error + (string \<Rightarrow> bool)) \<Rightarrow> (string \<Rightarrow> string \<Rightarrow> bool) \<Rightarrow>
   TagAllowDeny \<Rightarrow> string list \<Rightarrow> error + string list" where
  "spec_filterTagList compile inRange tset tags =
     (case compileAll compile (Allow tset) of
        Inl err \<Rightarrow> Inl err
      | Inr allow \<Rightarrow>
     (case compileAll compile (Deny tset) of
        Inl err \<Rightarrow> Inl err
      | Inr deny \<Rightarrow>
          Inr (filter (\<lambda>tag. (allow = [] \<or> (\<exists>exp \<in> set allow. exp tag)) \<and>
                           \<not> (\<exists>exp \<in> set deny. exp tag) \<and>
                           (SemverRange tset = [] \<or> inRange (SemverRange tset) tag)) tags)))"

text \<open>
  \<^verbatim>\<open>regexp.Compile\<close> on the patterns of the examples: an anchored literal compiles to the
  test for that literal, and \<^verbatim>\<open>(\<close> does not compile (its parenthesis is never closed). The
  examples compile no other pattern; the last line stands for them.
\<close>

definition example_Compile :: "string \<Rightarrow> error + (string \<Rightarrow> bool)" where
  "example_Compile pattern =
     (if pattern = ''^stable$'' then Inr (\<lambda>tag. tag = ''stable'')
      else if pattern = ''^latest$'' then Inr (\<lambda>tag. tag = ''latest'')
      else if pattern = ''^keep$'' then Inr (\<lambda>tag. tag = ''keep'')
      else if pattern = ''('' then Inl (ExtErr ''error parsing regexp: missing closing )'')
      else Inl (ExtErr ''pattern outside the table''))"

text \<open>
  A registry that is the list of its tags. A reference is a repository name and a tag;
  \<^verbatim>\<open>TagDelete\<close> removes the tag, except for the tags in \<open>broken\<close>, whose deletion the
  registry refuses.
\<close>

definition example_opts ::
  "ConfigSync list \<Rightarrow> string list \<Rightarrow> (string \<times> string, string list) rootOpts" where
  "example_opts conf broken =
     \<lparr>conf_Sync = conf,
      ref_New = (\<lambda>tgt. Inr (tgt, [])),
      CommonName = fst,
      SetTag = (\<lambda>r tag. (fst r, tag)),
      rc_TagList = (\<lambda>reg r. Inr (Inr reg)),
      rc_TagDelete = (\<lambda>reg r. if snd r \<in> set broken then (Some (ExtErr ''denied''), reg)
                                else (None, removeAll (snd r) reg)),
      filterTagList = spec_filterTagList example_Compile (\<lambda>range tag. False),
      regexp_Compile = example_Compile\<rparr>"

text \<open>A sync entry for the target \<open>''repo''\<close> with an allow list and exclusion patterns.\<close>

definition example_rule :: "string list \<Rightarrow> string list \<Rightarrow> ConfigSync" where
  "example_rule allow exclude =
     \<lparr>Target = ''repo'',
      Tags = \<lparr>Allow = allow, Deny = [], SemverRange = []\<rparr>,
      TagSets = [],
      CleanupTagsExclude = exclude\<rparr>"

section \<open>Descriptors (package descriptor)\<close>

text \<open>
  The sources hold the tests of package descriptor (\<^verbatim>\<open>TestCompare\<close>,
  \<^verbatim>\<open>TestGetDataDescriptor\<close>, \<^verbatim>\<open>TestListSearch\<close>, \<^verbatim>\<open>TestDigestAlgorithm\<close>) and not
  the functions they test. The functions below are modelled from the spec; the tables of the
  tests are translated from the sources, and each model is checked against its table.
\<close>

subsection \<open>Data\<close>

text \<open>
  Modelled from the spec: \<^verbatim>\<open>platform.Platform\<close> is declared outside the sources. Section 3
  lists its fields; the tests set \<^verbatim>\<open>OS\<close> and \<^verbatim>\<open>Architecture\<close>.
\<close>

record Platform =
  OS :: string
  Architecture :: string
  OSVersion :: string
  OSFeatures :: "string list"
  Variant :: string

text \<open>
  Modelled from the spec: \<^verbatim>\<open>Descriptor\<close> is declared outside the sources. The fields are
  those of section 3, under the names the tests give them. A Go map is an association list
  read with \<open>map_of\<close>; \<^verbatim>\<open>[]byte\<close> is a list of characters, nil and empty alike \<open>[]\<close>.
  \<open>digestAlgo\<close> is the algorithm preference of section 3 (\<open>[]\<close> when unset).
\<close>

record Descriptor =
  MediaType :: string
  Digest :: string
  Size :: int
  URLs :: "string list"
  Annotations :: "(string \<times> string) list"
  Data :: string
  Platform :: "Platform option"
  ArtifactType :: string
  digestAlgo :: string

text \<open>
  Modelled from the spec: \<^verbatim>\<open>MatchOpt\<close> is declared outside the sources. The fields are those
  of section 3, which the tests set as \<^verbatim>\<open>Platform\<close>, \<^verbatim>\<open>ArtifactType\<close>, \<^verbatim>\<open>Annotations\<close>,
  \<^verbatim>\<open>SortAnnotation\<close> and \<^verbatim>\<open>SortDesc\<close>; \<open>None\<close> is a nil pointer or a nil map.
\<close>

record MatchOpt =
  optPlatform :: "Platform option"
  optArtifactType :: string
  optAnnotations :: "(string \<times> string) list option"
  SortAnnotation :: string
  SortDesc :: bool

text \<open>
  The errors of package errs that the tests expect: \<^verbatim>\<open>errs.ErrParsingFailed\<close>,
  \<^verbatim>\<open>errs.ErrUnsupported\<close>, \<^verbatim>\<open>errs.ErrNotFound\<close>.
\<close>

datatype errs = ErrParsingFailed | ErrUnsupported | ErrNotFound

text \<open>The zero value \<^verbatim>\<open>Descriptor{}\<close>.\<close>

definition Descriptor0 :: Descriptor where
  "Descriptor0 =
     \<lparr>MediaType = [], Digest = [], Size = 0, URLs = [], Annotations = [], Data = [],
      Platform = None, ArtifactType = [], digestAlgo = []\<rparr>"

text \<open>The zero value \<^verbatim>\<open>MatchOpt{}\<close>.\<close>

definition MatchOpt0 :: MatchOpt where
  "MatchOpt0 =
     \<lparr>optPlatform = None, optArtifactType = [], optAnnotations = None, SortAnnotation = [],
      SortDesc = False\<rparr>"

text \<open>\<^verbatim>\<open>&platform.Platform{OS: os, Architecture: arch}\<close>.\<close>

definition platform :: "string \<Rightarrow> string \<Rightarrow> Platform" where
  "platform os arch = \<lparr>OS = os, Architecture = arch, OSVersion = [], OSFeatures = [], Variant = []\<rparr>"

text \<open>
  The constants of package mediatype that the tests name. The package is declared outside the
  sources; the values are the registered media type strings of Docker schema 2 and OCI, of
  which \<^verbatim>\<open>TestGetDataJSON\<close> spells out the two layer types.
\<close>

definition Docker2Manifest :: string where
  "Docker2Manifest = ''application/vnd.docker.distribution.manifest.v2+json''"

definition Docker2ManifestList :: string where
  "Docker2ManifestList = ''application/vnd.docker.distribution.manifest.list.v2+json''"

definition Docker2LayerGzip :: string where
  "Docker2LayerGzip = ''application/vnd.docker.image.rootfs.diff.tar.gzip''"

definition OCI1Manifest :: string where
  "OCI1Manifest = ''application/vnd.oci.image.manifest.v1+json''"

definition OCI1ManifestList :: string where
  "OCI1ManifestList = ''application/vnd.oci.image.index.v1+json''"

definition OCI1LayerGzip :: string where
  "OCI1LayerGzip = ''application/vnd.oci.image.layer.v1.tar+gzip''"

subsection \<open>Digest identity\<close>

text \<open>
  Modelled from the spec: digest validation is not in the sources. Section 3: a digest is
  \<^verbatim>\<open><algorithm>:<hex-encoded-hash>\<close>. \<open>isHex\<close> is a digit of a hex-encoded hash.
\<close>

definition isHex :: "char \<Rightarrow> bool" where
  "isHex c = (c \<in> set ''0123456789abcdef'')"

text \<open>
  Modelled from the spec: \<open>parse\<close> is not in the sources. Section 4.1: it splits on the first
  colon and accepts the value only if the algorithm is registered and the hex length is the
  algorithm's. \<open>algos\<close> lists the registered algorithms with their hex lengths (the spec asks
  for SHA-256 and SHA-512 at least).
\<close>

definition parse :: "(string \<times> nat) list \<Rightarrow> string \<Rightarrow> (string \<times> string) option" where
  "parse algos s =
     (case dropWhile (\<lambda>c. c \<noteq> CHR '':'') s of
        [] \<Rightarrow> None
      | colon # hex \<Rightarrow>
          (case map_of algos (takeWhile (\<lambda>c. c \<noteq> CHR '':'') s) of
             None \<Rightarrow> None
           | Some n \<Rightarrow>
               if length hex = n \<and> list_all isHex hex
               then Some (takeWhile (\<lambda>c. c \<noteq> CHR '':'') s, hex)
               else None))"

text \<open>
  Modelled from the spec: \<^verbatim>\<open>digest.Canonical\<close> is not in the sources. Section 3: the
  canonical algorithm is SHA-256.
\<close>

definition Canonical :: string where
  "Canonical = ''sha256''"

text \<open>
  Modelled from the spec: \<^verbatim>\<open>DigestAlgo\<close> is not in the sources. Sections 3 and 4.1:
  \<open>DigestAlgo\<close> returns the algorithm of the digest when the digest is valid; otherwise the
  preferred algorithm when one is set, and the canonical one when none is.
\<close>

definition DigestAlgo :: "(string \<times> nat) list \<Rightarrow> Descriptor \<Rightarrow> string" where
  "DigestAlgo algos d =
     (case parse algos (Digest d) of
        Some (algo, hex) \<Rightarrow> algo
      | None \<Rightarrow> if digestAlgo d \<noteq> [] then digestAlgo d else Canonical)"

text \<open>
  Modelled from the spec: \<^verbatim>\<open>DigestAlgoPrefer\<close> is not in the sources. Section 4.1:
  \<open>DigestAlgoPrefer\<close> fails with \<open>ErrUnsupported\<close> if the algorithm is not registered, and
  otherwise records the preference; the digest is not touched.
\<close>

definition DigestAlgoPrefer :: "(string \<times> nat) list \<Rightarrow> Descriptor \<Rightarrow> string \<Rightarrow> errs + Descriptor" where
  "DigestAlgoPrefer algos d algo =
     (if map_of algos algo = None then Inl ErrUnsupported
      else Inr (d\<lparr>digestAlgo := algo\<rparr>))"

subsection \<open>Comparing descriptors, and embedded data\<close>

text \<open>
  Modelled from the spec: \<^verbatim>\<open>Descriptor.Same\<close> is not in the sources. Section 4.2 gives
  equal digests and equal sizes, and says that media types may differ as the Docker-schema
  and the OCI-schema label of one content do. \<^verbatim>\<open>TestCompare\<close>, which is in the sources,
  fixes what that means: its case "converting OCI media type" expects a Docker manifest and
  an OCI manifest to be the same, its case "different media type" expects a Docker manifest
  and a Docker manifest list, with equal digest and size, not to be. So two media types
  agree when they are equal or \<open>toOCI\<close> maps both to one OCI media type.
\<close>

definition Same :: "(string \<Rightarrow> string option) \<Rightarrow> Descriptor \<Rightarrow> Descriptor \<Rightarrow> bool" where
  "Same toOCI d d2 =
     (Digest d = Digest d2 \<and> Size d = Size d2 \<and>
      (MediaType d = MediaType d2 \<or>
       (toOCI (MediaType d) \<noteq> None \<and> toOCI (MediaType d) = toOCI (MediaType d2))))"

text \<open>
  Modelled from the spec: the conversion table is not in the sources. On the media types
  above, a Docker type maps to its OCI counterpart and an OCI type to itself.
\<close>

definition mtToOCI :: "string \<Rightarrow> string option" where
  "mtToOCI = map_of
     [(Docker2ManifestList, OCI1ManifestList),
      (Docker2Manifest, OCI1Manifest),
      (Docker2LayerGzip, OCI1LayerGzip),
      (OCI1ManifestList, OCI1ManifestList),
      (OCI1Manifest, OCI1Manifest),
      (OCI1LayerGzip, OCI1LayerGzip)]"

text \<open>
  Modelled from the spec: \<^verbatim>\<open>Descriptor.GetData\<close> is not in the sources. Section 4.2:
  it returns the data after verifying that the data is present, that its length is the size,
  and that its digest under the descriptor's own algorithm is the digest; any violation is
  \<open>ErrParsingFailed\<close>. \<open>fromBytes algo content\<close> is the digest string of \<open>content\<close> under
  \<open>algo\<close>.
\<close>

definition GetData ::
  "(string \<times> nat) list \<Rightarrow> (string \<Rightarrow> string \<Rightarrow> string) \<Rightarrow> Descriptor \<Rightarrow> errs + string" where
  "GetData algos fromBytes d =
     (if Data d = [] then Inl ErrParsingFailed
      else if int (length (Data d)) \<noteq> Size d then Inl ErrParsingFailed
      else if fromBytes (DigestAlgo algos d) (Data d) \<noteq> Digest d then Inl ErrParsingFailed
      else Inr (Data d))"

subsection \<open>Searching a descriptor list\<close>

text \<open>
  Modelled from the spec: the OS-compatibility table is not in the sources. Section 4.3 names
  one entry of it: a darwin request may be satisfied by a linux entry.
\<close>

definition osCompatible :: "string \<Rightarrow> string \<Rightarrow> bool" where
  "osCompatible requested entry = (requested = ''darwin'' \<and> entry = ''linux'')"

text \<open>
  Modelled from the spec: platform matching is not in the sources. Section 4.3: an exact match
  is a match of OS, architecture and variant.
\<close>

definition platformExact :: "Platform \<Rightarrow> Descriptor \<Rightarrow> bool" where
  "platformExact p d =
     (case Platform d of
        None \<Rightarrow> False
      | Some q \<Rightarrow> OS q = OS p \<and> Architecture q = Architecture p \<and> Variant q = Variant p)"

text \<open>
  Modelled from the spec: platform matching is not in the sources. Section 4.3: the
  compatibility table permits an entry of another OS, with the requested architecture and
  variant.
\<close>

definition platformCompatible :: "Platform \<Rightarrow> Descriptor \<Rightarrow> bool" where
  "platformCompatible p d =
     (case Platform d of
        None \<Rightarrow> False
      | Some q \<Rightarrow> osCompatible (OS p) (OS q) \<and> Architecture q = Architecture p \<and> Variant q = Variant p)"

text \<open>
  Modelled from the spec: the candidate filter is not in the sources. Section 4.3, step 1: a
  candidate survives if its artifact type is the requested one (when one is requested) and it
  carries every requested annotation with the requested value (when annotations are
  requested).
\<close>

definition matchesFilters :: "MatchOpt \<Rightarrow> Descriptor \<Rightarrow> bool" where
  "matchesFilters opt d =
     ((optArtifactType opt = [] \<or> ArtifactType d = optArtifactType opt) \<and>
      (case optAnnotations opt of
         None \<Rightarrow> True
       | Some kvs \<Rightarrow> list_all (\<lambda>kv. map_of (Annotations d) (fst kv) = Some (snd kv)) kvs))"

text \<open>
  Modelled from the spec: the platform step is not in the sources. Section 4.3, step 2: with a
  requested platform, the candidates that match it exactly are preferred; if there is none,
  the compatible ones are taken. The spec keeps candidates without a platform when no
  candidate with one matches; \<^verbatim>\<open>TestListSearch\<close> ("artifact missing") expects
  \<open>ErrNotFound\<close> there, so here a candidate without a platform matches no requested platform.
\<close>

definition platformStage :: "MatchOpt \<Rightarrow> Descriptor list \<Rightarrow> Descriptor list" where
  "platformStage opt candidates =
     (case optPlatform opt of
        None \<Rightarrow> candidates
      | Some p \<Rightarrow>
          if filter (platformExact p) candidates \<noteq> [] then filter (platformExact p) candidates
          else filter (platformCompatible p) candidates)"

text \<open>
  Modelled from the spec: the sort is not in the sources. Section 4.3, step 3, orders by the
  string value of the annotation; Go compares strings byte by byte.
\<close>

fun stringLess :: "string \<Rightarrow> string \<Rightarrow> bool" where
  "stringLess [] [] = False"
| "stringLess [] (y # ys) = True"
| "stringLess (x # xs) [] = False"
| "stringLess (x # xs) (y # ys) =
     ((of_char x :: nat) < of_char y \<or> (x = y \<and> stringLess xs ys))"

text \<open>
  Modelled from the spec: the sort is not in the sources. Section 4.3, step 3: ascending
  unless \<open>SortDesc\<close>, candidates without the annotation last in either direction.
  \<open>sortsBefore opt d cur\<close> says that \<open>d\<close> comes strictly before \<open>cur\<close> in that order.
\<close>

definition sortsBefore :: "MatchOpt \<Rightarrow> Descriptor \<Rightarrow> Descriptor \<Rightarrow> bool" where
  "sortsBefore opt d cur =
     (case map_of (Annotations d) (SortAnnotation opt) of
        None \<Rightarrow> False
      | Some v \<Rightarrow>
          (case map_of (Annotations cur) (SortAnnotation opt) of
             None \<Rightarrow> True
           | Some w \<Rightarrow> if SortDesc opt then stringLess w v else stringLess v w))"

text \<open>
  Modelled from the spec: \<^verbatim>\<open>DescriptorListSearch\<close> is not in the sources. Section 4.3:
  filter the candidates, apply the platform step, and return the first candidate in the
  requested order, or \<open>ErrNotFound\<close> when none survives. The spec leaves the choice among tied
  candidates open; here the first of the list is taken, as the rows of \<^verbatim>\<open>TestListSearch\<close>
  expect.
\<close>

definition DescriptorListSearch :: "Descriptor list \<Rightarrow> MatchOpt \<Rightarrow> errs + Descriptor" where
  "DescriptorListSearch dl opt =
     (case platformStage opt (filter (matchesFilters opt) dl) of
        [] \<Rightarrow> Inl ErrNotFound
      | d # ds \<Rightarrow>
          if SortAnnotation opt = [] then Inr d
          else Inr (foldl (\<lambda>cur d'. if sortsBefore opt d' cur then d' else cur) d ds))"

subsection \<open>The tables of the tests\<close>

text \<open>\<^verbatim>\<open>digest.FromString("test A")\<close>: the SHA-256 digest of the string.\<close>

definition digA :: string where
  "digA = ''sha256:ffea9d0796c0619962166dc19829f5cf3adec0183e5fa28328423250d372dca6''"

text \<open>\<^verbatim>\<open>digest.FromString("test B")\<close>.\<close>

definition digB :: string where
  "digB = ''sha256:751b452a4267ab9cc8700ce39fd508cba028dc46ccdd75d74b10bc48ef310aae''"

text \<open>
  The package's \<^verbatim>\<open>EmptyDigest\<close>, declared outside the sources: the SHA-256 digest of the
  empty content.
\<close>

definition EmptyDigest :: string where
  "EmptyDigest = ''sha256:e3b0c44298fc1c149afbf4c8996fb92427ae41e4649b934ca495991b7852b855''"

text \<open>
  The descriptor most rows of \<^verbatim>\<open>TestCompare\<close> write out or add a field to:
  \<^verbatim>\<open>Descriptor{MediaType: mediatype.Docker2Manifest, Size: 1234, Digest: digA}\<close>.
\<close>

definition dManifest :: Descriptor where
  "dManifest = Descriptor0\<lparr>MediaType := Docker2Manifest, Size := 1234, Digest := digA\<rparr>"

text \<open>
  \<^verbatim>\<open>TestCompare\<close>: name, \<open>d1\<close>, \<open>d2\<close>, \<open>expectSame\<close>, row by row. (The column
  \<open>expectEqual\<close> is about \<^verbatim>\<open>Equal\<close>, which no statement here uses.)
\<close>

definition TestCompare :: "(string \<times> Descriptor \<times> Descriptor \<times> bool) list" where
  "TestCompare =
    [(''empty'', Descriptor0, Descriptor0, True),
     (''empty d1'', Descriptor0, dManifest, False),
     (''empty d2'', dManifest, Descriptor0, False),
     (''same simple manifest'', dManifest, dManifest, True),
     (''converting OCI media type'',
        Descriptor0\<lparr>MediaType := Docker2Manifest, Size := 1234, Digest := digA\<rparr>,
        Descriptor0\<lparr>MediaType := OCI1Manifest, Size := 1234, Digest := digA\<rparr>, True),
     (''different media type'',
        Descriptor0\<lparr>MediaType := Docker2Manifest, Size := 1234, Digest := digA\<rparr>,
        Descriptor0\<lparr>MediaType := Docker2ManifestList, Size := 1234, Digest := digA\<rparr>, False),
     (''different size'',
        Descriptor0\<lparr>MediaType := Docker2Manifest, Size := 1234, Digest := digA\<rparr>,
        Descriptor0\<lparr>MediaType := Docker2Manifest, Size := 4321, Digest := digA\<rparr>, False),
     (''different digest'',
        Descriptor0\<lparr>MediaType := Docker2Manifest, Size := 1234, Digest := digA\<rparr>,
        Descriptor0\<lparr>MediaType := Docker2Manifest, Size := 1234, Digest := digB\<rparr>, False),
     (''annotation eq'',
        dManifest\<lparr>Annotations := [(''key a'', ''value a''), (''key b'', ''value b'')]\<rparr>,
        dManifest\<lparr>Annotations := [(''key b'', ''value b''), (''key a'', ''value a'')]\<rparr>, True),
     (''annotation diff'',
        dManifest\<lparr>Annotations := [(''key a'', ''value a''), (''key b'', ''value b'')]\<rparr>,
        dManifest\<lparr>Annotations := [(''key a'', ''value c''), (''key d'', ''value b'')]\<rparr>, True),
     (''annotation missing'',
        dManifest\<lparr>Annotations := [(''key a'', ''value a''), (''key b'', ''value b'')]\<rparr>,
        dManifest, True),
     (''urls eq'',
        dManifest\<lparr>URLs := [''url a'', ''url b'']\<rparr>,
        dManifest\<lparr>URLs := [''url a'', ''url b'']\<rparr>, True),
     (''urls diff'',
        dManifest\<lparr>URLs := [''url a'', ''url b'']\<rparr>,
        dManifest\<lparr>URLs := [''url c'', ''url d'']\<rparr>, True),
     (''urls missing'',
        dManifest\<lparr>URLs := [''url a'', ''url b'']\<rparr>,
        dManifest, True),
     (''platform eq'',
        dManifest\<lparr>Platform := Some (platform ''linux'' ''amd64'')\<rparr>,
        dManifest\<lparr>Platform := Some (platform ''linux'' ''amd64'')\<rparr>, True),
     (''platform diff'',
        dManifest\<lparr>Platform := Some (platform ''linux'' ''amd64'')\<rparr>,
        dManifest\<lparr>Platform := Some (platform ''linux'' ''arm64'')\<rparr>, True),
     (''platform missing'',
        dManifest\<lparr>Platform := Some (platform ''linux'' ''amd64'')\<rparr>,
        dManifest, True),
     (''artifactType eq'',
        dManifest\<lparr>ArtifactType := ''application/vnd.example.test''\<rparr>,
        dManifest\<lparr>ArtifactType := ''application/vnd.example.test''\<rparr>, True),
     (''artifactType diff'',
        dManifest\<lparr>ArtifactType := ''application/vnd.example.test''\<rparr>,
        dManifest\<lparr>ArtifactType := ''application/vnd.example.test2''\<rparr>, True),
     (''artifactType missing'',
        dManifest\<lparr>ArtifactType := ''application/vnd.example.test''\<rparr>,
        dManifest, True)]"

text \<open>
  The algorithms registered when the tests run (the test file links \<^verbatim>\<open>crypto/sha256\<close> and
  \<^verbatim>\<open>crypto/sha512\<close>), with the lengths of their hex encodings.
\<close>

definition testAlgos :: "(string \<times> nat) list" where
  "testAlgos = [(''sha256'', 64), (''sha384'', 96), (''sha512'', 128)]"

text \<open>
  \<^verbatim>\<open>FromBytes\<close> on the one content \<^verbatim>\<open>TestGetDataDescriptor\<close> hashes, under SHA-256 and
  SHA-512 (the digests its rows "Good data" and "Good data 512" carry).
\<close>

definition testFromBytes :: "string \<Rightarrow> string \<Rightarrow> string" where
  "testFromBytes algo content =
     (if content = ''example data'' \<and> algo = ''sha256''
      then ''sha256:44752f37272e944fd2c913a35342eaccdd1aaf189bae50676b301ab213fc5061''
      else if content = ''example data'' \<and> algo = ''sha512''
      then ''sha512:ed59c5759a9ece516cec0c0623142d0e9fe70a27d750eee7fd38f4550d50addd873d0fa1a51fc823c1e3d5cada203f4a05d8325caacb7d3e0727a701f3f07e5f''
      else [])"

text \<open>\<^verbatim>\<open>TestGetDataDescriptor\<close>: name, \<open>d\<close>, and the expected error or data.\<close>

definition TestGetDataDescriptor :: "(string \<times> Descriptor \<times> (errs + string)) list" where
  "TestGetDataDescriptor =
    [(''No Data'',
        Descriptor0\<lparr>MediaType := Docker2LayerGzip, Size := 941,
          Digest := ''sha256:f6e2d7fa40092cf3d9817bf6ff54183d68d108a47fdf5a5e476c612626c80e14''\<rparr>,
        Inl ErrParsingFailed),
     (''Bad Digest'',
        Descriptor0\<lparr>MediaType := OCI1LayerGzip, Size := 12,
          Digest := ''sha256:e4a380728755139f156563e8b795581d5915dcc947fe937c524c6d52fd604b99'',
          Data := ''example data''\<rparr>,
        Inl ErrParsingFailed),
     (''Bad Digest 512'',
        Descriptor0\<lparr>MediaType := OCI1LayerGzip, Size := 12,
          Digest := ''sha512:1239c5759a9ece516cec0c0623142d0e9fe70a27d750eee7fd38f4550d50addd873d0fa1a51fc823c1e3d5cada203f4a05d8325caacb7d3e0727a701f3f07e5f'',
          Data := ''example data''\<rparr>,
        Inl ErrParsingFailed),
     (''Bad Size'',
        Descriptor0\<lparr>MediaType := OCI1LayerGzip, Size := 1000,
          Digest := ''sha256:44752f37272e944fd2c913a35342eaccdd1aaf189bae50676b301ab213fc5061'',
          Data := ''example data''\<rparr>,
        Inl ErrParsingFailed),
     (''Good data'',
        Descriptor0\<lparr>MediaType := OCI1LayerGzip, Size := 12,
          Digest := ''sha256:44752f37272e944fd2c913a35342eaccdd1aaf189bae50676b301ab213fc5061'',
          Data := ''example data''\<rparr>,
        Inr ''example data''),
     (''Good data 512'',
        Descriptor0\<lparr>MediaType := OCI1LayerGzip, Size := 12,
          Digest := ''sha512:ed59c5759a9ece516cec0c0623142d0e9fe70a27d750eee7fd38f4550d50addd873d0fa1a51fc823c1e3d5cada203f4a05d8325caacb7d3e0727a701f3f07e5f'',
          Data := ''example data''\<rparr>,
        Inr ''example data'')]"

text \<open>
  What the descriptors of \<^verbatim>\<open>TestListSearch\<close> share:
  \<^verbatim>\<open>Descriptor{MediaType: mediatype.OCI1Manifest, Size: 12345, Digest: EmptyDigest}\<close>.
\<close>

definition dListEntry :: Descriptor where
  "dListEntry = Descriptor0\<lparr>MediaType := OCI1Manifest, Size := 12345, Digest := EmptyDigest\<rparr>"

text \<open>The descriptors of \<^verbatim>\<open>TestListSearch\<close> and its list \<^verbatim>\<open>testDL\<close>.\<close>

definition dAMD64 :: Descriptor where
  "dAMD64 = dListEntry\<lparr>Platform := Some (platform ''linux'' ''amd64'')\<rparr>"

definition dAMD64Win :: Descriptor where
  "dAMD64Win = dListEntry\<lparr>Platform := Some (platform ''windows'' ''amd64'')\<rparr>"

definition dARM64 :: Descriptor where
  "dARM64 = dListEntry\<lparr>Platform := Some (platform ''linux'' ''arm64'')\<rparr>"

definition dAnnotations :: Descriptor where
  "dAnnotations = dListEntry\<lparr>Platform := Some (platform ''linux'' ''amd64''),
     Annotations := [(''runtime'', ''special runtime''), (''version'', ''1.2.3''),
                     (''date'', ''2022-01-01 12:34:56'')]\<rparr>"

definition dAnnotations2 :: Descriptor where
  "dAnnotations2 = dListEntry\<lparr>Platform := Some (platform ''linux'' ''amd64''),
     Annotations := [(''runtime'', ''special runtime''), (''version'', ''1.3.0''),
                     (''date'', ''2022-04-01 01:02:03'')]\<rparr>"

definition dArtifact :: Descriptor where
  "dArtifact = dListEntry\<lparr>ArtifactType := ''application/example.artifact'',
     Annotations := [(''version'', ''1.2.3''), (''date'', ''2022-01-01 12:34:56'')]\<rparr>"

definition dArtifact2 :: Descriptor where
  "dArtifact2 = dListEntry\<lparr>ArtifactType := ''application/example.artifact'',
     Annotations := [(''version'', ''1.2.9''), (''date'', ''2022-04-01 01:02:03''), (''unique'', ''x'')]\<rparr>"

definition dArtifact3 :: Descriptor where
  "dArtifact3 = dListEntry\<lparr>ArtifactType := ''application/example.artifact'',
     Annotations := [(''version'', ''1.3.0''), (''date'', ''2022-02-28 02:04:08'')]\<rparr>"

definition testDL :: "Descriptor list" where
  "testDL = [dAMD64, dARM64, dAMD64Win, dAnnotations, dAnnotations2, dArtifact, dArtifact2, dArtifact3]"

text \<open>\<^verbatim>\<open>TestListSearch\<close>: name, list, options, and the expected error or descriptor.\<close>

definition TestListSearch :: "(string \<times> Descriptor list \<times> MatchOpt \<times> (errs + Descriptor)) list" where
  "TestListSearch =
    [(''empty'', [], MatchOpt0, Inl ErrNotFound),
     (''amd64'', testDL,
        MatchOpt0\<lparr>optPlatform := Some (platform ''linux'' ''amd64'')\<rparr>, Inr dAMD64),
     (''amd64 compat'', testDL,
        MatchOpt0\<lparr>optPlatform := Some (platform ''darwin'' ''amd64'')\<rparr>, Inr dAMD64),
     (''amd64 windows'', testDL,
        MatchOpt0\<lparr>optPlatform := Some (platform ''windows'' ''amd64'')\<rparr>, Inr dAMD64Win),
     (''amd64 annotations'', testDL,
        MatchOpt0\<lparr>optAnnotations := Some [(''runtime'', ''special runtime'')],
          optPlatform := Some (platform ''linux'' ''amd64'')\<rparr>, Inr dAnnotations),
     (''artifact missing'', testDL,
        MatchOpt0\<lparr>optArtifactType := ''application/example.artifact'',
          optPlatform := Some (platform ''linux'' ''amd64'')\<rparr>, Inl ErrNotFound),
     (''artifact'', testDL,
        MatchOpt0\<lparr>optArtifactType := ''application/example.artifact'', optAnnotations := Some []\<rparr>,
        Inr dArtifact),
     (''artifact sort'', testDL,
        MatchOpt0\<lparr>optArtifactType := ''application/example.artifact'', optAnnotations := Some [],
          SortAnnotation := ''date''\<rparr>, Inr dArtifact),
     (''artifact sort desc'', testDL,
        MatchOpt0\<lparr>optArtifactType := ''application/example.artifact'', optAnnotations := Some [],
          SortAnnotation := ''date'', SortDesc := True\<rparr>, Inr dArtifact2),
     (''artifact sort unset'', testDL,
        MatchOpt0\<lparr>optArtifactType := ''application/example.artifact'', optAnnotations := Some [],
          SortAnnotation := ''unique''\<rparr>, Inr dArtifact2),
     (''artifact sort unset desc'', testDL,
        MatchOpt0\<lparr>optArtifactType := ''application/example.artifact'', optAnnotations := Some [],
          SortAnnotation := ''unique'', SortDesc := True\<rparr>, Inr dArtifact2),
     (''artifact sort all unique desc'', testDL,
        MatchOpt0\<lparr>SortAnnotation := ''unique'', SortDesc := True\<rparr>, Inr dArtifact2)]"

text \<open>\<^verbatim>\<open>digest.SHA256.FromString("hello world")\<close> and \<^verbatim>\<open>digest.SHA512.FromString("hello world")\<close>.\<close>

definition dig256 :: string where
  "dig256 = ''sha256:b94d27b9934d3e08a52e52d7da7dabfac484efe37a5380ee9088f7ace2efcde9''"

definition dig512 :: string where
  "dig512 = ''sha512:309ecc489c12d6eb4cc40f50c902f2b4d0ed77ee511a7c7a9bcd3ca86d4cd86f989dd35bc5ff499670da34255b45b0cfd830e81f605dcf7dc5542e93ae9cd76f''"

text \<open>\<^verbatim>\<open>TestDigestAlgorithm\<close>: name, \<open>d\<close>, \<open>setPref\<close>, \<open>expectSetErr\<close>, \<open>expectAlgo\<close>.\<close>

definition TestDigestAlgorithm :: "(string \<times> Descriptor \<times> string \<times> errs option \<times> string) list" where
  "TestDigestAlgorithm =
    [(''empty'', Descriptor0, [], None, Canonical),
     (''valid-sha256'', Descriptor0\<lparr>Digest := dig256\<rparr>, [], None, ''sha256''),
     (''valid-sha512'', Descriptor0\<lparr>Digest := dig512\<rparr>, [], None, ''sha512''),
     (''invalid-hash'', Descriptor0\<lparr>Digest := ''sha512:1234''\<rparr>, [], None, Canonical),
     (''invalid-format'', Descriptor0\<lparr>Digest := ''unknown''\<rparr>, [], None, Canonical),
     (''invalid-algorithm'', Descriptor0\<lparr>Digest := ''sha123:123412341234''\<rparr>, [], None, Canonical),
     (''empty-prefer-512'', Descriptor0, ''sha512'', None, ''sha512''),
     (''valid-sha256-prefer-512'', Descriptor0\<lparr>Digest := dig256\<rparr>, ''sha512'', None, ''sha256''),
     (''empty-set-invalid'', Descriptor0, ''invalid'', Some ErrUnsupported, Canonical),
     (''invalid-hash-failed-set'', Descriptor0\<lparr>Digest := ''sha512:1234''\<rparr>, ''invalid'',
        Some ErrUnsupported, Canonical)]"

text \<open>
  What \<^verbatim>\<open>TestDigestAlgorithm\<close> does with a row: set the preference when one is given,
  compare the error, then compare the algorithm of the descriptor (which a failed call leaves
  as it was).
\<close>

definition runDigestAlgorithm :: "Descriptor \<Rightarrow> string \<Rightarrow> errs option \<Rightarrow> string \<Rightarrow> bool" where
  "runDigestAlgorithm d setPref expectSetErr expectAlgo =
     (if setPref = [] then DigestAlgo testAlgos d = expectAlgo
      else
        (case DigestAlgoPrefer testAlgos d setPref of
           Inl err \<Rightarrow> expectSetErr = Some err \<and> DigestAlgo testAlgos d = expectAlgo
         | Inr d' \<Rightarrow> expectSetErr = None \<and> DigestAlgo testAlgos d' = expectAlgo))"

section \<open>Properties of the sync cleanup engine\<close>

subsection \<open>The loops\<close>

lemma set_addWanted: "set (addWanted wanted filteredCur) = set wanted \<union> set filteredCur"
  by (induction filteredCur arbitrary: wanted) auto

lemma wantedOfSets_ok:
  "\<forall>tset \<in> set sets. \<exists>w. ftl tset tTagsList = Inr w \<Longrightarrow>
   \<exists>wanted'. wantedOfSets ftl tTagsList sets wanted = Inr wanted' \<and>
     set wanted' = set wanted \<union>
       (\<Union>tset \<in> set sets. case ftl tset tTagsList of Inl err \<Rightarrow> {} | Inr filteredCur \<Rightarrow> set filteredCur)"
proof (induction sets arbitrary: wanted)
  case Nil
  then show ?case by simp
next
  case (Cons tset sets)
  from Cons.prems obtain w where w: "ftl tset tTagsList = Inr w" by auto
  from Cons.prems have rest: "\<forall>tset \<in> set sets. \<exists>w. ftl tset tTagsList = Inr w" by simp
  from Cons.IH [OF rest, of "addWanted wanted w"] w show ?case
    by (auto simp: set_addWanted)
qed

lemma wantedOfEntries_ok:
  "\<forall>syncEntry \<in> set syncEntries. \<forall>tset \<in> set (entrySets syncEntry). \<exists>w. ftl tset tTagsList = Inr w \<Longrightarrow>
   \<exists>wanted'. wantedOfEntries ftl tTagsList syncEntries wanted allSetsEmpty =
       Inr (wanted', allSetsEmpty \<and> (\<forall>syncEntry \<in> set syncEntries. entrySets syncEntry = [])) \<and>
     set wanted' = set wanted \<union> wantedUnion ftl tTagsList syncEntries"
proof (induction syncEntries arbitrary: wanted allSetsEmpty)
  case Nil
  then show ?case by (simp add: wantedUnion_def)
next
  case (Cons syncEntry syncEntries)
  from Cons.prems have here: "\<forall>tset \<in> set (entrySets syncEntry). \<exists>w. ftl tset tTagsList = Inr w"
    and rest: "\<forall>syncEntry \<in> set syncEntries. \<forall>tset \<in> set (entrySets syncEntry). \<exists>w. ftl tset tTagsList = Inr w"
    by simp_all
  show ?case
  proof (cases "entrySets syncEntry = []")
    case True
    with Cons.IH [OF rest, of wanted allSetsEmpty] show ?thesis
      by (auto simp: wantedUnion_def)
  next
    case False
    from here wantedOfSets_ok [where sets = "entrySets syncEntry" and ftl = ftl
        and tTagsList = tTagsList and wanted = wanted] obtain w1 where
      w1: "wantedOfSets ftl tTagsList (entrySets syncEntry) wanted = Inr w1"
      and s1: "set w1 = set wanted \<union>
        (\<Union>tset \<in> set (entrySets syncEntry). case ftl tset tTagsList of Inl err \<Rightarrow> {} | Inr filteredCur \<Rightarrow> set filteredCur)"
      by blast
    from Cons.IH [OF rest, of w1 False] obtain w2 where
      w2: "wantedOfEntries ftl tTagsList syncEntries w1 False = Inr (w2, False)"
      and s2: "set w2 = set w1 \<union> wantedUnion ftl tTagsList syncEntries"
      by auto
    have "wantedOfEntries ftl tTagsList (syncEntry # syncEntries) wanted allSetsEmpty = Inr (w2, False)"
      using False w1 w2 by simp
    moreover have "set w2 = set wanted \<union> wantedUnion ftl tTagsList (syncEntry # syncEntries)"
      using s1 s2 by (auto simp: wantedUnion_def)
    ultimately show ?thesis using False by simp
  qed
qed

lemma wantedTags_no_filters:
  assumes "\<forall>syncEntry \<in> set (findSyncEntriesForTarget opts tgt). entrySets syncEntry = []"
  shows "wantedTags opts tTagsList tgt = Inr tTagsList"
proof -
  have "wantedOfEntries ftl tTagsList es wanted b = Inr (wanted, b)"
    if "\<forall>syncEntry \<in> set es. entrySets syncEntry = []" for ftl es wanted b
    using that by (induction es) simp_all
  with assms show ?thesis by (simp add: wantedTags_def)
qed

lemma matchesExclusionPattern_ok:
  "\<forall>pattern \<in> set patterns. \<exists>exp. compile pattern = Inr exp \<Longrightarrow>
   \<exists>pattern. matchesExclusionPattern compile tag patterns = Inr (matchesAny compile patterns tag, pattern)"
  by (induction patterns) (auto simp: matchesAny_def)

lemma matchesExclusionPattern_reaches_invalid:
  assumes "\<forall>p \<in> set before. \<exists>exp. compile p = Inr exp"
    and "compile pattern = Inl err"
  shows "matchesExclusionPattern compile tag (before @ pattern # after) =
           (if matchesAny compile before tag
            then matchesExclusionPattern compile tag before
            else Inl (InvalidExclusionPattern pattern err))"
  using assms by (induction before) (auto simp: matchesAny_def)

lemma identifyTags_ok:
  "\<forall>pattern \<in> set patterns. \<exists>exp. compile pattern = Inr exp \<Longrightarrow>
   identifyTags compile wanted patterns tTagsList ds =
     Inr (ds @ filter (\<lambda>tag. tag \<notin> set wanted \<and> \<not> matchesAny compile patterns tag) tTagsList)"
proof (induction tTagsList arbitrary: ds)
  case Nil
  then show ?case by simp
next
  case (Cons tag tTagsList)
  from matchesExclusionPattern_ok [OF Cons.prems, of tag] obtain pattern where
    "matchesExclusionPattern compile tag patterns = Inr (matchesAny compile patterns tag, pattern)" ..
  with Cons.IH [OF Cons.prems] show ?case by simp
qed

lemma identifyTags_all_wanted:
  "set tTagsList \<subseteq> set wanted \<Longrightarrow> identifyTags compile wanted patterns tTagsList ds = Inr ds"
  by (induction tTagsList arbitrary: ds) auto

lemma identifyTags_reaches_invalid:
  assumes "\<forall>p \<in> set before. \<exists>exp. compile p = Inr exp"
    and "compile pattern = Inl err"
    and "tag \<in> set tTagsList"
    and "tag \<notin> set wanted"
    and "\<not> matchesAny compile before tag"
  shows "identifyTags compile wanted (before @ pattern # after) tTagsList ds =
           Inl (InvalidExclusionPattern pattern err)"
  using assms(3)
proof (induction tTagsList arbitrary: ds)
  case Nil
  then show ?case by simp
next
  case (Cons t ts)
  note reach = matchesExclusionPattern_reaches_invalid [OF assms(1,2), of _ after]
  show ?case
  proof (cases "t \<in> set wanted")
    case True
    with Cons assms(4) show ?thesis by auto
  next
    case unwanted: False
    show ?thesis
    proof (cases "matchesAny compile before t")
      case True
      from assms(1) matchesExclusionPattern_ok [where compile = compile and patterns = before and tag = t]
      obtain p where "matchesExclusionPattern compile t before = Inr (True, p)"
        using True by auto
      moreover from True assms(5) have "t \<noteq> tag" by auto
      ultimately show ?thesis using unwanted True Cons reach [of t] by auto
    next
      case False
      then show ?thesis using unwanted reach [of t] by simp
    qed
  qed
qed

lemma matchesExclusionPattern_never_clears:
  "pattern \<in> set patterns \<Longrightarrow> compile pattern = Inl err \<Longrightarrow>
   matchesExclusionPattern compile tag patterns \<noteq> Inr (False, matched)"
  by (induction patterns) (auto split: sum.splits)

lemma identifyTags_schedules_nothing:
  assumes "pattern \<in> set patterns" and "compile pattern = Inl err"
  shows "identifyTags compile wanted patterns tTagsList ds = Inr ds' \<Longrightarrow> ds' = ds"
proof (induction tTagsList arbitrary: ds)
  case Nil
  then show ?case by simp
next
  case (Cons tag tTagsList)
  show ?case
  proof (cases "tag \<in> set wanted")
    case True
    with Cons show ?thesis by simp
  next
    case False
    show ?thesis
    proof (cases "matchesExclusionPattern compile tag patterns")
      case (Inl e)
      with False Cons.prems show ?thesis by simp
    next
      case (Inr r)
      obtain excluded matched where r: "r = (excluded, matched)" by (cases r)
      with Inr assms matchesExclusionPattern_never_clears [where compile = compile
          and pattern = pattern and err = err and patterns = patterns and tag = tag
          and matched = matched]
      have "excluded" by (cases excluded) simp_all
      with False Inr r Cons show ?thesis by simp
    qed
  qed
qed

lemma deleteTags_no_cancel:
  "(\<And>j. j < length ds \<Longrightarrow> \<not> ctx (k + j)) \<Longrightarrow>
   deleteTags opts ctx tgtRef ds k reg errs issued =
     \<lparr>returned = errors_Join (errs @ failures (CommonName opts tgtRef) (attempts opts tgtRef reg ds)),
      registry = registryAfter opts tgtRef reg ds,
      deleted = issued @ ds\<rparr>"
proof (induction ds arbitrary: k reg errs issued)
  case Nil
  then show ?case by simp
next
  case (Cons tag ds)
  have now: "\<not> ctx k" using Cons.prems [of 0] by simp
  have later: "\<And>j. j < length ds \<Longrightarrow> \<not> ctx (Suc k + j)" using Cons.prems [of "Suc j" for j] by simp
  show ?case
  proof (cases "rc_TagDelete opts reg (SetTag opts tgtRef tag)")
    case (Pair r reg')
    show ?thesis using now Pair Cons.IH [OF later] by (cases r) simp_all
  qed
qed

lemma deleteTags_cancel:
  "i < length ds \<Longrightarrow> ctx (k + i) \<Longrightarrow> (\<And>j. j < i \<Longrightarrow> \<not> ctx (k + j)) \<Longrightarrow>
   deleteTags opts ctx tgtRef ds k reg errs issued =
     \<lparr>returned = Some (Joined (errs @ failures (CommonName opts tgtRef) (attempts opts tgtRef reg (take i ds)) @ [ErrCanceled])),
      registry = registryAfter opts tgtRef reg (take i ds),
      deleted = issued @ take i ds\<rparr>"
proof (induction ds arbitrary: i k reg errs issued)
  case Nil
  then show ?case by simp
next
  case (Cons tag ds)
  show ?case
  proof (cases i)
    case 0
    then show ?thesis using Cons.prems(2) by (simp add: errors_Join_def)
  next
    case (Suc i')
    have now: "\<not> ctx k" using Cons.prems(3) [of 0] Suc by simp
    have len: "i' < length ds" using Cons.prems(1) Suc by simp
    have at: "ctx (Suc k + i')" using Cons.prems(2) Suc by simp
    have before: "\<And>j. j < i' \<Longrightarrow> \<not> ctx (Suc k + j)" using Cons.prems(3) [of "Suc j" for j] Suc by simp
    show ?thesis
    proof (cases "rc_TagDelete opts reg (SetTag opts tgtRef tag)")
      case (Pair r reg')
      show ?thesis using now Pair Suc Cons.IH [OF len at before] by (cases r) simp_all
    qed
  qed
qed

lemma failures_no_cancel: "ErrCanceled \<notin> set (failures name rs)"
  by (induction name rs rule: failures.induct) auto

lemma failures_iff:
  "FailedDeleteTag name tag err \<in> set (failures name' rs) \<longleftrightarrow> name = name' \<and> (tag, Some err) \<in> set rs"
  by (induction name' rs rule: failures.induct) auto

lemma failures_empty_iff: "failures name rs = [] \<longleftrightarrow> (\<forall>r \<in> set rs. snd r = None)"
  by (induction name rs rule: failures.induct) auto

lemma map_fst_attempts: "map fst (attempts opts tgtRef reg ds) = ds"
  by (induction ds arbitrary: reg) auto

lemmas example_defs = example_opts_def example_rule_def example_Compile_def spec_filterTagList_def
  findSyncEntriesForTarget_def entrySets_def allExclusionPatterns_def

subsection \<open>Which tags are deleted\<close>

text \<open>
  C2, as the code has it. When the target parses, its tags are listed, every filter set of
  every sync entry of the target filters without error, every pooled exclusion pattern
  compiles, and the caller never cancels: if at least one sync entry of the target has a
  filter set (its \<^verbatim>\<open>TagSets\<close>, plus its \<^verbatim>\<open>Tags\<close> when allow, deny or semverRange is
  non-empty), \<^verbatim>\<open>TagDelete\<close> is called on exactly the listed tags that are not in the union of
  what the filter sets keep and that match no pooled exclusion pattern, in listing order; if no
  sync entry of the target has a filter set, it is called on no tag.
\<close>

theorem cleanupTags_deletes_unwanted:
  assumes "ref_New opts tgt = Inr tgtRef"
    and "rc_TagList opts reg tgtRef = Inr (Inr tTagsList)"
    and "\<forall>syncEntry \<in> set (findSyncEntriesForTarget opts tgt). \<forall>tset \<in> set (entrySets syncEntry).
           \<exists>w. filterTagList opts tset tTagsList = Inr w"
    and "\<forall>pattern \<in> set (allExclusionPatterns opts tgt). \<exists>exp. regexp_Compile opts pattern = Inr exp"
    and "\<forall>k. \<not> ctx k"
  shows "deleted (cleanupTags opts ctx reg s tgt) =
     (if \<exists>syncEntry \<in> set (findSyncEntriesForTarget opts tgt). entrySets syncEntry \<noteq> []
      then filter (\<lambda>tag. tag \<notin> wantedUnion (filterTagList opts) tTagsList (findSyncEntriesForTarget opts tgt) \<and>
                     \<not> matchesAny (regexp_Compile opts) (allExclusionPatterns opts tgt) tag) tTagsList
      else [])"
proof (cases "\<exists>syncEntry \<in> set (findSyncEntriesForTarget opts tgt). entrySets syncEntry \<noteq> []")
  case some: True
  let ?es = "findSyncEntriesForTarget opts tgt"
  from assms(3) wantedOfEntries_ok [where syncEntries = ?es and ftl = "filterTagList opts"
      and tTagsList = tTagsList and wanted = "[]" and allSetsEmpty = True] obtain w where
    w: "wantedOfEntries (filterTagList opts) tTagsList ?es [] True =
          Inr (w, \<forall>syncEntry \<in> set ?es. entrySets syncEntry = [])"
    and sw: "set w = wantedUnion (filterTagList opts) tTagsList ?es"
    by auto
  have wanted: "wantedTags opts tTagsList tgt = Inr w"
    using w some by (auto simp: wantedTags_def)
  have ds: "tagsToDelete opts reg tgt = Inr (tgtRef,
     filter (\<lambda>tag. tag \<notin> set w \<and> \<not> matchesAny (regexp_Compile opts) (allExclusionPatterns opts tgt) tag) tTagsList)"
    using assms(1,2,4) wanted identifyTags_ok [where compile = "regexp_Compile opts"
      and patterns = "allExclusionPatterns opts tgt" and wanted = w and tTagsList = tTagsList and ds = "[]"]
    by (simp add: tagsToDelete_def)
  have "deleted (deleteTags opts ctx tgtRef ds' 0 reg [] []) = ds'" for ds'
    by (subst deleteTags_no_cancel) (simp_all add: assms(5))
  with ds sw some show ?thesis by (simp add: cleanupTags_def)
next
  case none: False
  then have "wantedTags opts tTagsList tgt = Inr tTagsList"
    by (intro wantedTags_no_filters) simp
  then have "tagsToDelete opts reg tgt = Inr (tgtRef, [])"
    using assms(1,2) by (simp add: tagsToDelete_def identifyTags_all_wanted)
  with none show ?thesis by (simp add: cleanupTags_def)
qed

text \<open>
  The scenario of C2: two entries for one target, one allowing \<^verbatim>\<open>^stable$\<close>, the other
  \<^verbatim>\<open>^latest$\<close>, and the tags stable, latest and old. Only old is deleted.
\<close>

theorem cleanupTags_deletes_unwanted_witness:
  "deleted (cleanupTags (example_opts [example_rule [''^stable$''] [], example_rule [''^latest$''] []] [])
      (\<lambda>k. False) [''stable'', ''latest'', ''old''] (example_rule [''^stable$''] []) ''repo'') = [''old'']"
proof -
  let ?opts = "example_opts [example_rule [''^stable$''] [], example_rule [''^latest$''] []] []"
  let ?tags = "[''stable'', ''latest'', ''old'']"
  have 1: "ref_New ?opts ''repo'' = Inr (''repo'', [])" by (simp add: example_defs)
  have 2: "rc_TagList ?opts ?tags (''repo'', []) = Inr (Inr ?tags)" by (simp add: example_defs)
  have 3: "\<forall>syncEntry \<in> set (findSyncEntriesForTarget ?opts ''repo''). \<forall>tset \<in> set (entrySets syncEntry).
           \<exists>w. filterTagList ?opts tset ?tags = Inr w" by (simp add: example_defs)
  have 4: "\<forall>pattern \<in> set (allExclusionPatterns ?opts ''repo''). \<exists>exp. regexp_Compile ?opts pattern = Inr exp"
    by (simp add: example_defs)
  have 5: "\<forall>k. \<not> (\<lambda>k. False) k" by simp
  show ?thesis
    using cleanupTags_deletes_unwanted [OF 1 2 3 4 5, of "example_rule [''^stable$''] []"]
    by (simp add: example_defs wantedUnion_def matchesAny_def)
qed

text \<open>
  C2 as stated, for every configuration, fails where the only entry of the target has no
  filter set: the union of wanted tags is empty and no pattern excludes \<open>old\<close>, yet nothing is
  deleted.
\<close>

theorem cleanupTags_union_counterexample:
  "deleted (cleanupTags (example_opts [example_rule [] []] []) (\<lambda>k. False) [''old''] (example_rule [] []) ''repo'') = [] \<and>
   filter (\<lambda>tag. tag \<notin> wantedUnion (filterTagList (example_opts [example_rule [] []] [])) [''old'']
                       (findSyncEntriesForTarget (example_opts [example_rule [] []] []) ''repo'') \<and>
                  \<not> matchesAny (regexp_Compile (example_opts [example_rule [] []] []))
                       (allExclusionPatterns (example_opts [example_rule [] []] []) ''repo'') tag) [''old''] = [''old'']"
  by (simp add: example_defs wantedUnion_def matchesAny_def cleanupTags_def tagsToDelete_def wantedTags_def errors_Join_def)

subsection \<open>Exclusion patterns that do not compile\<close>

text \<open>
  C3, as the code has it. If a pooled exclusion pattern does not compile, \<^verbatim>\<open>TagDelete\<close> is
  never called and the registry is left as it was. Patterns are compiled while a tag that is
  not wanted is tested against them, in list order: if every pattern before the one that does
  not compile compiles, and some listed tag is not wanted and matches none of them, the
  cleanup returns the compile error wrapped with the pattern.
\<close>

theorem cleanupTags_invalid_exclusion_pattern:
  assumes "pattern \<in> set (allExclusionPatterns opts tgt)"
    and "regexp_Compile opts pattern = Inl err"
  shows "deleted (cleanupTags opts ctx reg s tgt) = [] \<and>
         registry (cleanupTags opts ctx reg s tgt) = reg \<and>
         (\<forall>tgtRef tTagsList wanted before after tag.
            ref_New opts tgt = Inr tgtRef \<and>
            rc_TagList opts reg tgtRef = Inr (Inr tTagsList) \<and>
            wantedTags opts tTagsList tgt = Inr wanted \<and>
            allExclusionPatterns opts tgt = before @ pattern # after \<and>
            (\<forall>p \<in> set before. \<exists>exp. regexp_Compile opts p = Inr exp) \<and>
            tag \<in> set tTagsList \<and> tag \<notin> set wanted \<and>
            \<not> matchesAny (regexp_Compile opts) before tag \<longrightarrow>
            returned (cleanupTags opts ctx reg s tgt) = Some (InvalidExclusionPattern pattern err))"
proof (intro conjI allI impI)
  have plan: "ds = []" if "tagsToDelete opts reg tgt = Inr (r, ds)" for r ds
    using that assms identifyTags_schedules_nothing [where compile = "regexp_Compile opts"
        and pattern = pattern and err = err and patterns = "allExclusionPatterns opts tgt"
        and ds = "[]" and ds' = ds]
    by (auto simp: tagsToDelete_def split: sum.splits)
  show "deleted (cleanupTags opts ctx reg s tgt) = []"
    by (auto simp: cleanupTags_def split: sum.splits dest: plan)
  show "registry (cleanupTags opts ctx reg s tgt) = reg"
    by (auto simp: cleanupTags_def split: sum.splits dest: plan)
next
  fix tgtRef tTagsList wanted before after tag
  assume h: "ref_New opts tgt = Inr tgtRef \<and>
            rc_TagList opts reg tgtRef = Inr (Inr tTagsList) \<and>
            wantedTags opts tTagsList tgt = Inr wanted \<and>
            allExclusionPatterns opts tgt = before @ pattern # after \<and>
            (\<forall>p \<in> set before. \<exists>exp. regexp_Compile opts p = Inr exp) \<and>
            tag \<in> set tTagsList \<and> tag \<notin> set wanted \<and>
            \<not> matchesAny (regexp_Compile opts) before tag"
  then have "identifyTags (regexp_Compile opts) wanted (before @ pattern # after) tTagsList [] =
      Inl (InvalidExclusionPattern pattern err)"
    using identifyTags_reaches_invalid [of before "regexp_Compile opts" pattern err tag tTagsList wanted after "[]"]
      assms(2) by blast
  with h show "returned (cleanupTags opts ctx reg s tgt) = Some (InvalidExclusionPattern pattern err)"
    by (simp add: cleanupTags_def tagsToDelete_def)
qed

theorem cleanupTags_invalid_exclusion_pattern_witness:
  "cleanupTags (example_opts [example_rule [''^stable$''] [''^keep$''], example_rule [''^latest$''] [''('']] [])
      (\<lambda>k. False) [''stable'', ''keep'', ''old''] (example_rule [''^stable$''] [''^keep$'']) ''repo'' =
     \<lparr>returned = Some (InvalidExclusionPattern ''('' (ExtErr ''error parsing regexp: missing closing )'')),
      registry = [''stable'', ''keep'', ''old''], deleted = []\<rparr>"
proof -
  let ?opts = "example_opts [example_rule [''^stable$''] [''^keep$''], example_rule [''^latest$''] [''('']] []"
  let ?tags = "[''stable'', ''keep'', ''old'']"
  let ?run = "cleanupTags ?opts (\<lambda>k. False) ?tags (example_rule [''^stable$''] [''^keep$'']) ''repo''"
  have pooled: "''('' \<in> set (allExclusionPatterns ?opts ''repo'')" by (simp add: example_defs)
  have invalid: "regexp_Compile ?opts ''('' = Inl (ExtErr ''error parsing regexp: missing closing )'')" by (simp add: example_defs)
  have 1: "ref_New ?opts ''repo'' = Inr (''repo'', [])" by (simp add: example_defs)
  have 2: "rc_TagList ?opts ?tags (''repo'', []) = Inr (Inr ?tags)" by (simp add: example_defs)
  have 3: "wantedTags ?opts ?tags ''repo'' = Inr [''stable'']" by (simp add: example_defs wantedTags_def)
  have 4: "allExclusionPatterns ?opts ''repo'' = [''^keep$''] @ ''('' # []" by (simp add: example_defs)
  have 5: "\<forall>p \<in> set [''^keep$'']. \<exists>exp. regexp_Compile ?opts p = Inr exp" by (simp add: example_defs)
  have 7: "''old'' \<in> set ?tags" by simp
  have 8: "''old'' \<notin> set [''stable'']" by simp
  have 9: "\<not> matchesAny (regexp_Compile ?opts) [''^keep$''] ''old''" by (simp add: example_defs matchesAny_def)
  note all = cleanupTags_invalid_exclusion_pattern [OF pooled invalid, of "\<lambda>k. False" ?tags
      "example_rule [''^stable$''] [''^keep$'']"]
  from all have d: "deleted ?run = []" and r: "registry ?run = ?tags" by blast+
  from all 1 2 3 4 5 7 8 9
  have e: "returned ?run = Some (InvalidExclusionPattern ''('' (ExtErr ''error parsing regexp: missing closing )''))"
    by blast
  from d r e show ?thesis by (cases ?run) simp
qed

text \<open>
  C3 as stated fails when every listed tag is wanted: the pooled pattern \<^verbatim>\<open>(\<close> does not
  compile, no tag is ever tested against it, and the cleanup returns nil.
\<close>

theorem cleanupTags_invalid_pattern_counterexample:
  "allExclusionPatterns (example_opts [example_rule [''^stable$''] [''('']] []) ''repo'' = [''(''] \<and>
   regexp_Compile (example_opts [example_rule [''^stable$''] [''('']] []) ''('' = Inl (ExtErr ''error parsing regexp: missing closing )'') \<and>
   cleanupTags (example_opts [example_rule [''^stable$''] [''('']] []) (\<lambda>k. False) [''stable'']
      (example_rule [''^stable$''] [''('']) ''repo'' =
     \<lparr>returned = None, registry = [''stable''], deleted = []\<rparr>"
  by (simp add: example_defs cleanupTags_def tagsToDelete_def wantedTags_def errors_Join_def)

subsection \<open>No filter sets\<close>

text \<open>
  C4. When every sync entry of the target has no \<^verbatim>\<open>TagSets\<close> and empty allow, deny and
  semverRange, every listed tag is wanted, \<^verbatim>\<open>TagDelete\<close> is never called, the registry is left
  as it was, and the call returns nil once the target parses and its tags are listed.
\<close>

theorem cleanupTags_no_filter_sets:
  assumes "\<forall>syncEntry \<in> set (findSyncEntriesForTarget opts tgt).
             TagSets syncEntry = [] \<and> Allow (Tags syncEntry) = [] \<and> Deny (Tags syncEntry) = [] \<and>
             SemverRange (Tags syncEntry) = []"
  shows "wantedTags opts tTagsList tgt = Inr tTagsList \<and>
         deleted (cleanupTags opts ctx reg s tgt) = [] \<and>
         registry (cleanupTags opts ctx reg s tgt) = reg \<and>
         (ref_New opts tgt = Inr tgtRef \<and> rc_TagList opts reg tgtRef = Inr (Inr tTagsList) \<longrightarrow>
            returned (cleanupTags opts ctx reg s tgt) = None)"
proof -
  have none: "\<forall>syncEntry \<in> set (findSyncEntriesForTarget opts tgt). entrySets syncEntry = []"
    using assms by (simp add: entrySets_def)
  have wanted: "wantedTags opts tags tgt = Inr tags" for tags
    by (rule wantedTags_no_filters [OF none])
  have plan: "tagsToDelete opts reg tgt = Inr (r, ds) \<Longrightarrow> ds = []" for r ds
    by (auto simp: tagsToDelete_def wanted identifyTags_all_wanted split: sum.splits)
  have run: "deleted (cleanupTags opts ctx reg s tgt) = [] \<and> registry (cleanupTags opts ctx reg s tgt) = reg"
    by (auto simp: cleanupTags_def split: sum.splits dest: plan)
  have ok: "returned (cleanupTags opts ctx reg s tgt) = None"
    if "ref_New opts tgt = Inr tgtRef" "rc_TagList opts reg tgtRef = Inr (Inr tTagsList)"
    using that
    by (simp add: cleanupTags_def tagsToDelete_def wanted identifyTags_all_wanted errors_Join_def)
  show ?thesis using wanted run ok by blast
qed

theorem cleanupTags_no_filter_sets_witness:
  "wantedTags (example_opts [example_rule [] [''^keep$'']] []) [''stable'', ''old''] ''repo'' = Inr [''stable'', ''old''] \<and>
   cleanupTags (example_opts [example_rule [] [''^keep$'']] []) (\<lambda>k. False) [''stable'', ''old'']
      (example_rule [] [''^keep$'']) ''repo'' =
     \<lparr>returned = None, registry = [''stable'', ''old''], deleted = []\<rparr>"
proof -
  let ?opts = "example_opts [example_rule [] [''^keep$'']] []"
  have h: "\<forall>syncEntry \<in> set (findSyncEntriesForTarget ?opts ''repo'').
             TagSets syncEntry = [] \<and> Allow (Tags syncEntry) = [] \<and> Deny (Tags syncEntry) = [] \<and>
             SemverRange (Tags syncEntry) = []"
    by (simp add: example_defs)
  have r: "ref_New ?opts ''repo'' = Inr (''repo'', [])" by (simp add: example_defs)
  have l: "rc_TagList ?opts [''stable'', ''old''] (''repo'', []) = Inr (Inr [''stable'', ''old''])"
    by (simp add: example_defs)
  show ?thesis
    using cleanupTags_no_filter_sets [OF h, of "[''stable'', ''old'']" "\<lambda>k. False" "[''stable'', ''old'']"
        "example_rule [] [''^keep$'']" "(''repo'', [])"] r l
    by (cases "cleanupTags ?opts (\<lambda>k. False) [''stable'', ''old''] (example_rule [] [''^keep$'']) ''repo''") simp
qed

subsection \<open>Cancellation and failed deletions\<close>

text \<open>
  C5. Let \<open>ds\<close> be the tags scheduled for deletion. If the context is first seen done at the
  check before deletion number \<open>i\<close>, \<^verbatim>\<open>TagDelete\<close> has been called on the first \<open>i\<close> tags of
  \<open>ds\<close> and on no other, the returned error joins the failures of those calls followed by
  \<open>ErrCanceled\<close>, and the registry is as those \<open>i\<close> calls left it.
\<close>

theorem cleanupTags_cancelled:
  assumes "tagsToDelete opts reg tgt = Inr (tgtRef, ds)"
    and "i < length ds"
    and "ctx i"
    and "\<forall>j < i. \<not> ctx j"
  shows "deleted (cleanupTags opts ctx reg s tgt) = take i ds \<and>
         returned (cleanupTags opts ctx reg s tgt) =
           Some (Joined (failures (CommonName opts tgtRef) (attempts opts tgtRef reg (take i ds)) @ [ErrCanceled])) \<and>
         registry (cleanupTags opts ctx reg s tgt) = registryAfter opts tgtRef reg (take i ds)"
  using assms deleteTags_cancel [of i ds ctx 0 opts tgtRef reg "[]" "[]"]
  by (simp add: cleanupTags_def)

theorem cleanupTags_cancelled_witness:
  "cleanupTags (example_opts [example_rule [''^stable$''] []] [''b'']) (\<lambda>k. 2 \<le> k)
      [''stable'', ''a'', ''b'', ''c'', ''d''] (example_rule [''^stable$''] []) ''repo'' =
     \<lparr>returned = Some (Joined [FailedDeleteTag ''repo'' ''b'' (ExtErr ''denied''), ErrCanceled]),
      registry = [''stable'', ''b'', ''c'', ''d''],
      deleted = [''a'', ''b'']\<rparr>"
proof -
  let ?opts = "example_opts [example_rule [''^stable$''] []] [''b'']"
  let ?reg = "[''stable'', ''a'', ''b'', ''c'', ''d'']"
  have plan: "tagsToDelete ?opts ?reg ''repo'' = Inr ((''repo'', []), [''a'', ''b'', ''c'', ''d''])"
    by (simp add: example_defs tagsToDelete_def wantedTags_def)
  have len: "(2::nat) < length [''a'', ''b'', ''c'', ''d'']" by simp
  have at: "(\<lambda>k. 2 \<le> k) (2::nat)" by simp
  have before: "\<forall>j < (2::nat). \<not> (\<lambda>k. 2 \<le> k) j" by simp
  show ?thesis
    using cleanupTags_cancelled [OF plan len at before, of "example_rule [''^stable$''] []"]
    by (cases "cleanupTags ?opts (\<lambda>k. 2 \<le> k) ?reg (example_rule [''^stable$''] []) ''repo''")
       (simp add: example_opts_def numeral_2_eq_2)
qed

text \<open>
  C6. If the context is never seen done, \<^verbatim>\<open>TagDelete\<close> is called on every scheduled tag, in
  order, whatever the earlier calls returned; the returned error joins the failures of the
  calls, which hold the failure of a tag exactly when its call failed, and is nil exactly when
  no call failed.
\<close>

theorem cleanupTags_failure_isolated:
  assumes "tagsToDelete opts reg tgt = Inr (tgtRef, ds)"
    and "\<forall>j < length ds. \<not> ctx j"
  shows "deleted (cleanupTags opts ctx reg s tgt) = ds \<and>
         map fst (attempts opts tgtRef reg ds) = ds \<and>
         returned (cleanupTags opts ctx reg s tgt) =
           errors_Join (failures (CommonName opts tgtRef) (attempts opts tgtRef reg ds)) \<and>
         (\<forall>tag err.
            FailedDeleteTag (CommonName opts tgtRef) tag err
              \<in> set (failures (CommonName opts tgtRef) (attempts opts tgtRef reg ds)) \<longleftrightarrow>
            (tag, Some err) \<in> set (attempts opts tgtRef reg ds)) \<and>
         (returned (cleanupTags opts ctx reg s tgt) = None \<longleftrightarrow>
            (\<forall>r \<in> set (attempts opts tgtRef reg ds). snd r = None)) \<and>
         registry (cleanupTags opts ctx reg s tgt) = registryAfter opts tgtRef reg ds"
  using assms deleteTags_no_cancel [of ds ctx 0 opts tgtRef reg "[]" "[]"]
  by (simp add: cleanupTags_def map_fst_attempts errors_Join_def failures_empty_iff failures_iff)

theorem cleanupTags_failure_isolated_witness:
  "cleanupTags (example_opts [example_rule [''^stable$''] []] [''b'']) (\<lambda>k. False)
      [''stable'', ''a'', ''b'', ''c''] (example_rule [''^stable$''] []) ''repo'' =
     \<lparr>returned = Some (Joined [FailedDeleteTag ''repo'' ''b'' (ExtErr ''denied'')]),
      registry = [''stable'', ''b''],
      deleted = [''a'', ''b'', ''c'']\<rparr>"
proof -
  let ?opts = "example_opts [example_rule [''^stable$''] []] [''b'']"
  let ?reg = "[''stable'', ''a'', ''b'', ''c'']"
  have plan: "tagsToDelete ?opts ?reg ''repo'' = Inr ((''repo'', []), [''a'', ''b'', ''c''])"
    by (simp add: example_defs tagsToDelete_def wantedTags_def)
  have never: "\<forall>j < length [''a'', ''b'', ''c'']. \<not> (\<lambda>k. False) j" by simp
  show ?thesis
    using cleanupTags_failure_isolated [OF plan never, of "example_rule [''^stable$''] []"]
    by (cases "cleanupTags ?opts (\<lambda>k. False) ?reg (example_rule [''^stable$''] []) ''repo''")
       (simp add: example_opts_def errors_Join_def)
qed

text \<open>
  C10. When no tag is scheduled for deletion the call returns nil and leaves the registry as
  it was, whatever the context says. A returned error carries \<open>ErrCanceled\<close> only if the context
  was seen done at the check before some scheduled deletion \<open>i\<close>, whose tag and the ones
  after it were not deleted.
\<close>

theorem cleanupTags_nothing_scheduled:
  assumes "tagsToDelete opts reg tgt = Inr (tgtRef, ds)"
  shows "(ds = [] \<longrightarrow>
            cleanupTags opts ctx reg s tgt = \<lparr>returned = None, registry = reg, deleted = []\<rparr>) \<and>
         (\<forall>errs. returned (cleanupTags opts ctx reg s tgt) = Some (Joined errs) \<and> ErrCanceled \<in> set errs \<longrightarrow>
            (\<exists>i < length ds. ctx i \<and> (\<forall>j < i. \<not> ctx j) \<and>
               deleted (cleanupTags opts ctx reg s tgt) = take i ds))"
proof (intro conjI impI allI)
  assume "ds = []"
  with assms show "cleanupTags opts ctx reg s tgt = \<lparr>returned = None, registry = reg, deleted = []\<rparr>"
    by (simp add: cleanupTags_def errors_Join_def)
next
  fix errs
  assume marked: "returned (cleanupTags opts ctx reg s tgt) = Some (Joined errs) \<and> ErrCanceled \<in> set errs"
  have run: "cleanupTags opts ctx reg s tgt = deleteTags opts ctx tgtRef ds 0 reg [] []"
    using assms by (simp add: cleanupTags_def)
  show "\<exists>i < length ds. ctx i \<and> (\<forall>j < i. \<not> ctx j) \<and> deleted (cleanupTags opts ctx reg s tgt) = take i ds"
  proof (cases "\<exists>i < length ds. ctx i")
    case True
    define i where "i = (LEAST i. i < length ds \<and> ctx i)"
    from True have i: "i < length ds \<and> ctx i"
      unfolding i_def by (rule LeastI_ex)
    have least: "\<forall>j < i. \<not> ctx j"
    proof (intro allI impI)
      fix j assume "j < i"
      then have "\<not> (j < length ds \<and> ctx j)" unfolding i_def by (rule not_less_Least)
      with \<open>j < i\<close> i show "\<not> ctx j" by simp
    qed
    have "deleted (cleanupTags opts ctx reg s tgt) = take i ds"
      using run i least deleteTags_cancel [of i ds ctx 0 opts tgtRef reg "[]" "[]"] by simp
    with i least show ?thesis by blast
  next
    case False
    then have "returned (cleanupTags opts ctx reg s tgt) =
        errors_Join (failures (CommonName opts tgtRef) (attempts opts tgtRef reg ds))"
      using run deleteTags_no_cancel [of ds ctx 0 opts tgtRef reg "[]" "[]"] by simp
    with marked have "ErrCanceled \<in> set (failures (CommonName opts tgtRef) (attempts opts tgtRef reg ds))"
      by (simp add: errors_Join_def split: if_splits)
    then show ?thesis by (simp add: failures_no_cancel)
  qed
qed

theorem cleanupTags_nothing_scheduled_witness:
  "cleanupTags (example_opts [example_rule [''^stable$''] [''^keep$'']] []) (\<lambda>k. True)
      [''stable'', ''keep''] (example_rule [''^stable$''] [''^keep$'']) ''repo'' =
     \<lparr>returned = None, registry = [''stable'', ''keep''], deleted = []\<rparr>"
proof -
  let ?opts = "example_opts [example_rule [''^stable$''] [''^keep$'']] []"
  have plan: "tagsToDelete ?opts [''stable'', ''keep''] ''repo'' = Inr ((''repo'', []), [])"
    by (simp add: example_defs tagsToDelete_def wantedTags_def)
  show ?thesis
    using cleanupTags_nothing_scheduled [OF plan, of "\<lambda>k. True" "example_rule [''^stable$''] [''^keep$'']"]
    by simp
qed

section \<open>Properties of descriptors\<close>

subsection \<open>The models pass the tables of the tests\<close>

text \<open>
  On every row of the table of its test, each model returns what the test expects:
  \<^verbatim>\<open>Same\<close> on \<^verbatim>\<open>TestCompare\<close>, \<^verbatim>\<open>GetData\<close> on \<^verbatim>\<open>TestGetDataDescriptor\<close>,
  \<^verbatim>\<open>DigestAlgoPrefer\<close> and \<^verbatim>\<open>DigestAlgo\<close> on \<^verbatim>\<open>TestDigestAlgorithm\<close>, and
  \<^verbatim>\<open>DescriptorListSearch\<close> on \<^verbatim>\<open>TestListSearch\<close>.
\<close>

lemmas mediatype_defs = Docker2Manifest_def Docker2ManifestList_def Docker2LayerGzip_def
  OCI1Manifest_def OCI1ManifestList_def OCI1LayerGzip_def

lemmas testDL_defs = testDL_def dAMD64_def dAMD64Win_def dARM64_def dAnnotations_def
  dAnnotations2_def dArtifact_def dArtifact2_def dArtifact3_def dListEntry_def Descriptor0_def
  MatchOpt0_def platform_def EmptyDigest_def OCI1Manifest_def

lemma Same_passes_TestCompare:
  "list_all (\<lambda>(name, d1, d2, expectSame). Same mtToOCI d1 d2 = expectSame) TestCompare"
  by (simp add: TestCompare_def Same_def mtToOCI_def mediatype_defs dManifest_def Descriptor0_def
      digA_def digB_def)

lemma GetData_passes_TestGetDataDescriptor:
  "list_all (\<lambda>(name, d, want). GetData testAlgos testFromBytes d = want) TestGetDataDescriptor"
  by (simp add: TestGetDataDescriptor_def GetData_def DigestAlgo_def parse_def testAlgos_def
      testFromBytes_def Descriptor0_def isHex_def Canonical_def)

lemma DigestAlgo_passes_TestDigestAlgorithm:
  "list_all (\<lambda>(name, d, setPref, expectSetErr, expectAlgo).
      runDigestAlgorithm d setPref expectSetErr expectAlgo) TestDigestAlgorithm"
  by (simp add: TestDigestAlgorithm_def runDigestAlgorithm_def DigestAlgoPrefer_def DigestAlgo_def
      parse_def testAlgos_def Descriptor0_def isHex_def Canonical_def dig256_def dig512_def)

lemma DescriptorListSearch_passes_TestListSearch:
  "list_all (\<lambda>(name, dl, opt, expect). DescriptorListSearch dl opt = expect) TestListSearch"
  by (simp add: TestListSearch_def DescriptorListSearch_def platformStage_def matchesFilters_def
      platformExact_def platformCompatible_def osCompatible_def sortsBefore_def testDL_defs)

subsection \<open>Same\<close>

text \<open>
  C1, as the tests have it. Two descriptors are the same exactly when their digests are
  equal, their sizes are equal, and their media types are equal or convert to one OCI media
  type; annotations, urls, platform and artifact type play no role.
\<close>

theorem Same_digest_size_mediatype:
  "(Same toOCI a b \<longleftrightarrow>
      Digest a = Digest b \<and> Size a = Size b \<and>
      (MediaType a = MediaType b \<or>
       (\<exists>oci. toOCI (MediaType a) = Some oci \<and> toOCI (MediaType b) = Some oci))) \<and>
   Same toOCI (a\<lparr>Annotations := an, URLs := us, Platform := p, ArtifactType := at\<rparr>) b = Same toOCI a b \<and>
   Same toOCI a (b\<lparr>Annotations := an, URLs := us, Platform := p, ArtifactType := at\<rparr>) = Same toOCI a b"
  by (auto simp: Same_def)

text \<open>
  A Docker manifest and an OCI manifest with one digest and size are the same, whatever the
  annotations (\<^verbatim>\<open>TestCompare\<close>, "converting OCI media type").
\<close>

theorem Same_digest_size_mediatype_witness:
  "Same mtToOCI (Descriptor0\<lparr>MediaType := Docker2Manifest, Size := 1234, Digest := digA\<rparr>)
     (Descriptor0\<lparr>MediaType := OCI1Manifest, Size := 1234, Digest := digA,
        Annotations := [(''key a'', ''value a'')]\<rparr>)"
  using Same_digest_size_mediatype [of mtToOCI
      "Descriptor0\<lparr>MediaType := Docker2Manifest, Size := 1234, Digest := digA\<rparr>"
      "Descriptor0\<lparr>MediaType := OCI1Manifest, Size := 1234, Digest := digA,
         Annotations := [(''key a'', ''value a'')]\<rparr>"]
  by (simp add: mtToOCI_def mediatype_defs Descriptor0_def)

text \<open>
  C1 as stated fails on \<^verbatim>\<open>TestCompare\<close>, "different media type": a Docker manifest and a
  Docker manifest list with equal digest and size are not the same.
\<close>

theorem Same_mediatype_counterexample:
  "Digest (Descriptor0\<lparr>MediaType := Docker2Manifest, Size := 1234, Digest := digA\<rparr>) =
     Digest (Descriptor0\<lparr>MediaType := Docker2ManifestList, Size := 1234, Digest := digA\<rparr>) \<and>
   Size (Descriptor0\<lparr>MediaType := Docker2Manifest, Size := 1234, Digest := digA\<rparr>) =
     Size (Descriptor0\<lparr>MediaType := Docker2ManifestList, Size := 1234, Digest := digA\<rparr>) \<and>
   \<not> Same mtToOCI (Descriptor0\<lparr>MediaType := Docker2Manifest, Size := 1234, Digest := digA\<rparr>)
         (Descriptor0\<lparr>MediaType := Docker2ManifestList, Size := 1234, Digest := digA\<rparr>)"
  by (simp add: Same_def mtToOCI_def mediatype_defs Descriptor0_def)

subsection \<open>GetData\<close>

text \<open>
  C7. \<open>GetData\<close> fails exactly when the data is missing, or its length differs from the size,
  or its digest under the descriptor's own algorithm differs from the digest; the only error
  is \<open>ErrParsingFailed\<close>; when the three checks pass it returns the data.
\<close>

theorem GetData_checks:
  "(GetData algos fromBytes d = Inl ErrParsingFailed \<longleftrightarrow>
      Data d = [] \<or> int (length (Data d)) \<noteq> Size d \<or>
      fromBytes (DigestAlgo algos d) (Data d) \<noteq> Digest d) \<and>
   (\<forall>err. GetData algos fromBytes d = Inl err \<longrightarrow> err = ErrParsingFailed) \<and>
   (Data d \<noteq> [] \<and> int (length (Data d)) = Size d \<and>
    fromBytes (DigestAlgo algos d) (Data d) = Digest d \<longrightarrow>
      GetData algos fromBytes d = Inr (Data d))"
  by (simp add: GetData_def)

theorem GetData_checks_witness:
  "GetData testAlgos testFromBytes
     (Descriptor0\<lparr>MediaType := OCI1LayerGzip, Size := 12,
        Digest := ''sha256:44752f37272e944fd2c913a35342eaccdd1aaf189bae50676b301ab213fc5061'',
        Data := ''example data''\<rparr>) = Inr ''example data'' \<and>
   GetData testAlgos testFromBytes
     (Descriptor0\<lparr>MediaType := OCI1LayerGzip, Size := 1000,
        Digest := ''sha256:44752f37272e944fd2c913a35342eaccdd1aaf189bae50676b301ab213fc5061'',
        Data := ''example data''\<rparr>) = Inl ErrParsingFailed"
  using GetData_checks [of testAlgos testFromBytes
      "Descriptor0\<lparr>MediaType := OCI1LayerGzip, Size := 12,
        Digest := ''sha256:44752f37272e944fd2c913a35342eaccdd1aaf189bae50676b301ab213fc5061'',
        Data := ''example data''\<rparr>"]
    GetData_checks [of testAlgos testFromBytes
      "Descriptor0\<lparr>MediaType := OCI1LayerGzip, Size := 1000,
        Digest := ''sha256:44752f37272e944fd2c913a35342eaccdd1aaf189bae50676b301ab213fc5061'',
        Data := ''example data''\<rparr>"]
  by (simp add: DigestAlgo_def parse_def testAlgos_def testFromBytes_def Descriptor0_def isHex_def)

subsection \<open>DescriptorListSearch\<close>

lemma pick_in_candidates:
  "foldl (\<lambda>cur d'. if sortsBefore opt d' cur then d' else cur) d ds \<in> set (d # ds)"
proof (induction ds arbitrary: d)
  case Nil
  show ?case by simp
next
  case (Cons x xs)
  show ?case
  proof (cases "sortsBefore opt x d")
    case True
    with Cons.IH [of x] show ?thesis by simp
  next
    case False
    with Cons.IH [of d] show ?thesis by simp blast
  qed
qed

lemma DescriptorListSearch_in_candidates:
  assumes "platformStage opt (filter (matchesFilters opt) dl) \<noteq> []"
  shows "\<exists>d \<in> set (platformStage opt (filter (matchesFilters opt) dl)). DescriptorListSearch dl opt = Inr d"
proof (cases "platformStage opt (filter (matchesFilters opt) dl)")
  case Nil
  with assms show ?thesis by simp
next
  case (Cons d ds)
  show ?thesis
  proof (cases "SortAnnotation opt = []")
    case True
    with Cons have "DescriptorListSearch dl opt = Inr d" by (simp add: DescriptorListSearch_def)
    with Cons show ?thesis by simp
  next
    case False
    define best where "best = foldl (\<lambda>cur d'. if sortsBefore opt d' cur then d' else cur) d ds"
    from False Cons have "DescriptorListSearch dl opt = Inr best"
      by (simp add: DescriptorListSearch_def best_def)
    moreover have "best \<in> set (d # ds)" unfolding best_def by (rule pick_in_candidates)
    ultimately show ?thesis using Cons by simp
  qed
qed

lemma DescriptorListSearch_exact:
  assumes "optPlatform opt = Some p"
    and "d0 \<in> set dl" "matchesFilters opt d0" "platformExact p d0"
  shows "\<exists>d \<in> set dl. DescriptorListSearch dl opt = Inr d \<and> matchesFilters opt d \<and> platformExact p d"
proof -
  have "d0 \<in> set (filter (platformExact p) (filter (matchesFilters opt) dl))"
    using assms(2-4) by simp
  then have ne: "filter (platformExact p) (filter (matchesFilters opt) dl) \<noteq> []"
    by (metis empty_iff empty_set)
  then have stage: "platformStage opt (filter (matchesFilters opt) dl) =
      filter (platformExact p) (filter (matchesFilters opt) dl)"
    using assms(1) by (simp add: platformStage_def)
  from DescriptorListSearch_in_candidates [of opt dl] ne stage
  obtain d where "d \<in> set (filter (platformExact p) (filter (matchesFilters opt) dl))"
    and "DescriptorListSearch dl opt = Inr d" by metis
  then show ?thesis by simp
qed

lemma DescriptorListSearch_compatible:
  assumes "optPlatform opt = Some p"
    and "\<not> (\<exists>d \<in> set dl. matchesFilters opt d \<and> platformExact p d)"
    and "d0 \<in> set dl" "matchesFilters opt d0" "platformCompatible p d0"
  shows "\<exists>d \<in> set dl. DescriptorListSearch dl opt = Inr d \<and> matchesFilters opt d \<and> platformCompatible p d"
proof -
  have none: "filter (platformExact p) (filter (matchesFilters opt) dl) = []"
    using assms(2) by (simp add: filter_empty_conv)
  have "d0 \<in> set (filter (platformCompatible p) (filter (matchesFilters opt) dl))"
    using assms(3-5) by simp
  then have ne: "filter (platformCompatible p) (filter (matchesFilters opt) dl) \<noteq> []"
    by (metis empty_iff empty_set)
  have stage: "platformStage opt (filter (matchesFilters opt) dl) =
      filter (platformCompatible p) (filter (matchesFilters opt) dl)"
    using assms(1) none by (simp add: platformStage_def)
  from DescriptorListSearch_in_candidates [of opt dl] ne stage
  obtain d where "d \<in> set (filter (platformCompatible p) (filter (matchesFilters opt) dl))"
    and "DescriptorListSearch dl opt = Inr d" by metis
  then show ?thesis by simp
qed

text \<open>
  C8, as the model has it. Take a list with a linux/amd64 entry and a windows/amd64 entry, and
  options that request no artifact type and no annotations. A request for windows/amd64
  returns a windows/amd64 entry. A request for darwin/amd64 returns a linux/amd64 entry
  provided no entry of the list is darwin/amd64. Whenever some entry matches the requested
  platform exactly, the entry returned matches it exactly.
\<close>

theorem DescriptorListSearch_platform:
  assumes "optArtifactType opt = []"
    and "optAnnotations opt = None"
    and "\<exists>d \<in> set dl. platformExact (platform ''linux'' ''amd64'') d"
    and "\<exists>d \<in> set dl. platformExact (platform ''windows'' ''amd64'') d"
  shows "(optPlatform opt = Some (platform ''windows'' ''amd64'') \<longrightarrow>
            (\<exists>d \<in> set dl. DescriptorListSearch dl opt = Inr d \<and>
               platformExact (platform ''windows'' ''amd64'') d)) \<and>
         (optPlatform opt = Some (platform ''darwin'' ''amd64'') \<and>
          \<not> (\<exists>d \<in> set dl. platformExact (platform ''darwin'' ''amd64'') d) \<longrightarrow>
            (\<exists>d \<in> set dl. DescriptorListSearch dl opt = Inr d \<and>
               platformExact (platform ''linux'' ''amd64'') d)) \<and>
         (\<forall>p. optPlatform opt = Some p \<and> (\<exists>d \<in> set dl. platformExact p d) \<longrightarrow>
            (\<exists>d \<in> set dl. DescriptorListSearch dl opt = Inr d \<and> platformExact p d))"
proof -
  have all: "matchesFilters opt d" for d
    using assms(1,2) by (simp add: matchesFilters_def)
  have exact: "\<exists>d \<in> set dl. DescriptorListSearch dl opt = Inr d \<and> platformExact p d"
    if "optPlatform opt = Some p" "\<exists>d \<in> set dl. platformExact p d" for p
    using that DescriptorListSearch_exact [of opt p _ dl] all by blast
  have compat: "platformCompatible (platform ''darwin'' ''amd64'') d \<longleftrightarrow>
      platformExact (platform ''linux'' ''amd64'') d" for d
    by (auto simp: platformCompatible_def platformExact_def osCompatible_def platform_def
        split: option.splits)
  have darwin: "\<exists>d \<in> set dl. DescriptorListSearch dl opt = Inr d \<and>
      platformExact (platform ''linux'' ''amd64'') d"
    if "optPlatform opt = Some (platform ''darwin'' ''amd64'')"
      "\<not> (\<exists>d \<in> set dl. platformExact (platform ''darwin'' ''amd64'') d)"
  proof -
    from assms(3) obtain d0 where "d0 \<in> set dl" "platformCompatible (platform ''darwin'' ''amd64'') d0"
      using compat by blast
    with DescriptorListSearch_compatible [of opt "platform ''darwin'' ''amd64''" dl d0] that all
    show ?thesis using compat by blast
  qed
  show ?thesis using exact darwin assms(4) by blast
qed

text \<open>
  On the list of \<^verbatim>\<open>TestListSearch\<close>, a request for darwin/amd64 returns the first
  linux/amd64 entry and a request for windows/amd64 a windows/amd64 entry.
\<close>

theorem DescriptorListSearch_platform_witness:
  "DescriptorListSearch testDL (MatchOpt0\<lparr>optPlatform := Some (platform ''darwin'' ''amd64'')\<rparr>) = Inr dAMD64 \<and>
   platformExact (platform ''linux'' ''amd64'') dAMD64 \<and>
   DescriptorListSearch testDL (MatchOpt0\<lparr>optPlatform := Some (platform ''windows'' ''amd64'')\<rparr>) = Inr dAMD64Win \<and>
   platformExact (platform ''windows'' ''amd64'') dAMD64Win \<and>
   (\<exists>d \<in> set testDL.
      DescriptorListSearch testDL (MatchOpt0\<lparr>optPlatform := Some (platform ''darwin'' ''amd64'')\<rparr>) = Inr d \<and>
      platformExact (platform ''linux'' ''amd64'') d) \<and>
   (\<exists>d \<in> set testDL.
      DescriptorListSearch testDL (MatchOpt0\<lparr>optPlatform := Some (platform ''windows'' ''amd64'')\<rparr>) = Inr d \<and>
      platformExact (platform ''windows'' ''amd64'') d)"
proof -
  let ?win = "MatchOpt0\<lparr>optPlatform := Some (platform ''windows'' ''amd64'')\<rparr>"
  let ?mac = "MatchOpt0\<lparr>optPlatform := Some (platform ''darwin'' ''amd64'')\<rparr>"
  have w1: "optArtifactType ?win = []" and w2: "optAnnotations ?win = None"
    and w: "optPlatform ?win = Some (platform ''windows'' ''amd64'')"
    by (simp_all add: MatchOpt0_def)
  have m1: "optArtifactType ?mac = []" and m2: "optAnnotations ?mac = None"
    and m: "optPlatform ?mac = Some (platform ''darwin'' ''amd64'')"
    by (simp_all add: MatchOpt0_def)
  have 3: "\<exists>d \<in> set testDL. platformExact (platform ''linux'' ''amd64'') d"
    by (simp add: testDL_defs platformExact_def)
  have 4: "\<exists>d \<in> set testDL. platformExact (platform ''windows'' ''amd64'') d"
    by (simp add: testDL_defs platformExact_def)
  have none: "\<not> (\<exists>d \<in> set testDL. platformExact (platform ''darwin'' ''amd64'') d)"
    by (simp add: testDL_defs platformExact_def)
  have darwin: "DescriptorListSearch testDL ?mac = Inr dAMD64"
    by (simp add: DescriptorListSearch_def platformStage_def matchesFilters_def
      platformExact_def platformCompatible_def osCompatible_def testDL_defs)
  have windows: "DescriptorListSearch testDL ?win = Inr dAMD64Win"
    by (simp add: DescriptorListSearch_def platformStage_def matchesFilters_def
      platformExact_def platformCompatible_def osCompatible_def testDL_defs)
  have linux: "platformExact (platform ''linux'' ''amd64'') dAMD64"
    by (simp add: testDL_defs platformExact_def)
  have win: "platformExact (platform ''windows'' ''amd64'') dAMD64Win"
    by (simp add: testDL_defs platformExact_def)
  note on_win = DescriptorListSearch_platform [OF w1 w2 3 4]
  note on_mac = DescriptorListSearch_platform [OF m1 m2 3 4]
  from on_win w have a: "\<exists>d \<in> set testDL. DescriptorListSearch testDL ?win = Inr d \<and>
      platformExact (platform ''windows'' ''amd64'') d" by blast
  from on_mac m none have b: "\<exists>d \<in> set testDL. DescriptorListSearch testDL ?mac = Inr d \<and>
      platformExact (platform ''linux'' ''amd64'') d" by blast
  from a b darwin windows linux win show ?thesis by blast
qed

text \<open>
  C8 as stated, for every list with a linux/amd64 and a windows/amd64 entry, fails on a list
  that also has a darwin/amd64 entry: the request for darwin/amd64 returns that entry.
\<close>

theorem DescriptorListSearch_darwin_counterexample:
  "DescriptorListSearch
     [dAMD64, dAMD64Win, dListEntry\<lparr>Platform := Some (platform ''darwin'' ''amd64'')\<rparr>]
     (MatchOpt0\<lparr>optPlatform := Some (platform ''darwin'' ''amd64'')\<rparr>) =
     Inr (dListEntry\<lparr>Platform := Some (platform ''darwin'' ''amd64'')\<rparr>) \<and>
   \<not> platformExact (platform ''linux'' ''amd64'') (dListEntry\<lparr>Platform := Some (platform ''darwin'' ''amd64'')\<rparr>)"
  by (simp add: DescriptorListSearch_def platformStage_def matchesFilters_def
      platformExact_def platformCompatible_def osCompatible_def testDL_defs)

subsection \<open>DigestAlgoPrefer\<close>

text \<open>
  C9. \<open>DigestAlgoPrefer\<close> fails, with \<open>ErrUnsupported\<close>, exactly when the algorithm is not
  registered. When it succeeds the digest is unchanged; if the digest is valid, the algorithm
  that \<open>DigestAlgo\<close> reports is unchanged too, and if the digest is empty or invalid it is
  the preferred one.
\<close>

theorem DigestAlgoPrefer_unsupported_or_kept:
  "(DigestAlgoPrefer algos d algo = Inl ErrUnsupported \<longleftrightarrow> map_of algos algo = None) \<and>
   (\<forall>err. DigestAlgoPrefer algos d algo = Inl err \<longrightarrow> err = ErrUnsupported) \<and>
   (\<forall>d'. DigestAlgoPrefer algos d algo = Inr d' \<longrightarrow>
      Digest d' = Digest d \<and>
      (parse algos (Digest d) \<noteq> None \<longrightarrow> DigestAlgo algos d' = DigestAlgo algos d) \<and>
      (parse algos (Digest d) = None \<and> algo \<noteq> [] \<longrightarrow> DigestAlgo algos d' = algo))"
  by (auto simp: DigestAlgoPrefer_def DigestAlgo_def split: if_splits)

theorem DigestAlgoPrefer_unsupported_or_kept_witness:
  "DigestAlgoPrefer testAlgos (Descriptor0\<lparr>Digest := dig256\<rparr>) ''invalid'' = Inl ErrUnsupported \<and>
   DigestAlgoPrefer testAlgos (Descriptor0\<lparr>Digest := dig256\<rparr>) ''sha512'' =
     Inr (Descriptor0\<lparr>Digest := dig256, digestAlgo := ''sha512''\<rparr>) \<and>
   DigestAlgo testAlgos (Descriptor0\<lparr>Digest := dig256, digestAlgo := ''sha512''\<rparr>) = ''sha256''"
proof -
  let ?d = "Descriptor0\<lparr>Digest := dig256\<rparr>"
  let ?d' = "Descriptor0\<lparr>Digest := dig256, digestAlgo := ''sha512''\<rparr>"
  have bad: "map_of testAlgos ''invalid'' = None" by (simp add: testAlgos_def)
  have good: "DigestAlgoPrefer testAlgos ?d ''sha512'' = Inr ?d'"
    by (simp add: DigestAlgoPrefer_def testAlgos_def Descriptor0_def)
  have valid: "parse testAlgos (Digest ?d) \<noteq> None"
    by (simp add: parse_def testAlgos_def Descriptor0_def dig256_def isHex_def)
  have algo: "DigestAlgo testAlgos ?d = ''sha256''"
    by (simp add: DigestAlgo_def parse_def testAlgos_def Descriptor0_def dig256_def isHex_def)
  have refused: "DigestAlgoPrefer testAlgos ?d ''invalid'' = Inl ErrUnsupported"
    using DigestAlgoPrefer_unsupported_or_kept [of testAlgos ?d "''invalid''"] bad by blast
  have kept: "DigestAlgo testAlgos ?d' = DigestAlgo testAlgos ?d"
    using DigestAlgoPrefer_unsupported_or_kept [of testAlgos ?d "''sha512''"] good valid by blast
  show ?thesis by (intro conjI) (simp_all only: refused good kept algo)
qed

end
